theory Spec2Isabelle
  imports Complex_Main "HOL-Library.Word" "HOL-Library.Multiset"
begin

section \<open>Common JavaScript values\<close>

text \<open>
  A \<open>Uint8Array\<close> (and Node's \<open>Buffer\<close>) is a list of bytes. JavaScript numbers are
  modelled as unbounded integers: every number the modelled code computes with is an
  integer (sizes, offsets, sequence numbers, priorities, indices).
\<close>

type_synonym bytes = "8 word list"

text \<open>JavaScript's \<open>%\<close> on integers: the remainder takes the sign of the dividend.\<close>

definition js_rem :: "int \<Rightarrow> int \<Rightarrow> int" where
  "js_rem a b = sgn a * (\<bar>a\<bar> mod \<bar>b\<bar>)"

section \<open>authentication.ts: the check digits of a device id\<close>

datatype auth_error = InvalidCheckDigit | IncorrectDeviceIdLength

definition alphabet :: string where
  "alphabet = ''ABCDEFGHIJKLMNOPQRSTUVWXYZ234567''"

definition alphabetSize :: int where
  "alphabetSize = int (length alphabet)"

text \<open>\<open>String.prototype.indexOf\<close> for a one-character needle: the first index, or -1.\<close>

fun indexOf :: "string \<Rightarrow> char \<Rightarrow> int" where
  "indexOf [] c = -1"
| "indexOf (x # xs) c =
     (if x = c then 0 else (let r = indexOf xs c in if r = -1 then -1 else r + 1))"

text \<open>\<open>s[i]\<close>: the character at index \<open>i\<close>, or \<open>undefined\<close> (here \<open>None\<close>) out of range.\<close>

definition charAt :: "string \<Rightarrow> int \<Rightarrow> char option" where
  "charAt s i = (if 0 \<le> i \<and> i < int (length s) then Some (s ! nat i) else None)"

text \<open>
  The loop of \<open>calculateCheckDigit\<close> over the characters of the group, carrying
  \<open>sum\<close> (here \<open>acc\<close>) and \<open>factor\<close>. The source adds
  \<open>Math.floor((addend / alphabetSize) + (addend % alphabetSize))\<close>, with a real division.
\<close>

fun checkDigitLoop :: "string \<Rightarrow> int \<Rightarrow> int \<Rightarrow> auth_error + int" where
  "checkDigitLoop [] acc factor = Inr acc"
| "checkDigitLoop (character # rest) acc factor =
     (let codePoint = indexOf alphabet character in
      if codePoint = -1 then Inl InvalidCheckDigit
      else
        let addend = factor * codePoint in
        checkDigitLoop rest
          (acc + \<lfloor>(of_int addend / of_int alphabetSize :: rat) + of_int (js_rem addend alphabetSize)\<rfloor>)
          (if factor = 1 then 2 else 1))"

definition calculateCheckDigit :: "string \<Rightarrow> auth_error + char option" where
  "calculateCheckDigit grp =
     (case checkDigitLoop grp 0 1 of
        Inl e \<Rightarrow> Inl e
      | Inr acc \<Rightarrow>
          (let checkCodePoint = alphabetSize - js_rem acc alphabetSize
           in Inr (charAt alphabet checkCodePoint)))"

text \<open>\<open>s += c\<close> where \<open>c\<close> may be \<open>undefined\<close>: JavaScript appends the text "undefined".\<close>

definition appendChar :: "string \<Rightarrow> char option \<Rightarrow> string" where
  "appendChar s c = (case c of Some ch \<Rightarrow> s @ [ch] | None \<Rightarrow> s @ ''undefined'')"

text \<open>\<open>s.substr(start, len)\<close> for \<open>0 \<le> start\<close>.\<close>

definition substr :: "string \<Rightarrow> nat \<Rightarrow> nat \<Rightarrow> string" where
  "substr s start len = take len (drop start s)"

fun addCheckDigitsLoop :: "string \<Rightarrow> nat list \<Rightarrow> string \<Rightarrow> auth_error + string" where
  "addCheckDigitsLoop deviceId [] deviceIdChecked = Inr deviceIdChecked"
| "addCheckDigitsLoop deviceId (i # is) deviceIdChecked =
     (let grp = substr deviceId (i * 13) 13 in
      case calculateCheckDigit grp of
        Inl e \<Rightarrow> Inl e
      | Inr checkDigit \<Rightarrow>
          addCheckDigitsLoop deviceId is (appendChar (deviceIdChecked @ grp) checkDigit))"

definition addCheckDigits :: "string \<Rightarrow> auth_error + string" where
  "addCheckDigits deviceId =
     (if length deviceId \<noteq> 52 then Inl IncorrectDeviceIdLength
      else addCheckDigitsLoop deviceId [0, 1, 2, 3] [])"

text \<open>The sum of the claim: weights alternate 1, 2; each character adds
  \<open>\<lfloor>w\<cdot>v/32\<rfloor> + (w\<cdot>v mod 32)\<close>.\<close>

fun weightedSum :: "string \<Rightarrow> int \<Rightarrow> int" where
  "weightedSum [] w = 0"
| "weightedSum (c # cs) w =
     (w * indexOf alphabet c) div 32 + (w * indexOf alphabet c) mod 32
       + weightedSum cs (if w = 1 then 2 else 1)"

section \<open>constants.ts and request.ts: the block request queue\<close>

record Block =
  b_offset :: int
  b_size :: int
  b_hash :: bytes
  b_cached :: int

record BlockRequest =
  br_id :: int
  br_fileId :: int
  br_folder :: string
  br_name :: string
  br_block :: Block

text \<open>
  \<open>RequestPriority\<close>: \<open>background = 0\<close>, \<open>user = 1\<close>; the queue stores the priority as a
  number.
\<close>

definition background :: int where "background = 0"
definition user :: int where "user = 1"

text \<open>
  The \<open>timeout\<close> field of a queued block holds the handle of \<open>setTimeout\<close>: \<open>NoTimer\<close> is
  \<open>undefined\<close>, \<open>Armed i\<close> the handle of a timer whose closure captured the queue index
  \<open>i\<close>. A callback is a function of the caller; it is named by a number, and each
  invocation is recorded with its arguments.
\<close>

datatype timer = NoTimer | Armed nat

datatype callback_args = CbError string | CbData bytes

record QueuedBlock =
  q_active :: bool
  q_retries :: int
  q_timeout :: timer
  q_blockRequest :: BlockRequest
  q_priority :: int
  q_callback :: "nat option"

text \<open>
  The fields of class \<open>Request\<close>. The constructor's \<open>send\<close> and \<open>queueChange\<close> functions
  belong to the caller: \<open>sent\<close> records the block requests passed to \<open>send\<close>,
  \<open>queueChanges\<close> counts the calls of \<open>queueChange\<close>, \<open>invoked\<close> records the callbacks
  called. The timers belong to the runtime: \<open>clearedTimeouts\<close> records the handles passed
  to \<open>clearTimeout\<close>, after which the closure of the handle never runs.
\<close>

record Request =
  requests :: "QueuedBlock list"
  rq_id :: int
  concurrent :: int
  rq_timeout :: int
  totalActive :: int
  retries :: int
  sent :: "BlockRequest list"
  queueChanges :: nat
  invoked :: "(nat \<times> callback_args) list"
  clearedTimeouts :: "timer list"

definition MAX_SAFE_INTEGER :: int where
  "MAX_SAFE_INTEGER = 2 ^ 53 - 1"

definition incrementId :: "int \<Rightarrow> int" where
  "incrementId i = (if i + 1 > MAX_SAFE_INTEGER - 1 then 1 else i + 1)"

definition enqueue :: "Request \<Rightarrow> QueuedBlock \<Rightarrow> Request" where
  "enqueue st request =
     st\<lparr>requests := requests st @ [request], queueChanges := Suc (queueChanges st)\<rparr>"

text \<open>\<open>splice(index, 1)\<close> removes the element at \<open>index\<close> (callers pass an index in range).\<close>

definition dequeue :: "Request \<Rightarrow> nat \<Rightarrow> Request" where
  "dequeue st index =
     st\<lparr>requests := take index (requests st) @ drop (Suc index) (requests st),
        queueChanges := Suc (queueChanges st)\<rparr>"

text \<open>
  The loop of \<open>process\<close> over the sorted queue, from index \<open>i\<close> on: it carries the id
  counter, \<open>totalActive\<close> and the requests sent, and stops once \<open>totalActive\<close> reaches
  \<open>concurrent\<close>.
\<close>

fun processLoop ::
  "int \<Rightarrow> nat \<Rightarrow> QueuedBlock list \<Rightarrow> int \<times> int \<times> BlockRequest list
     \<Rightarrow> QueuedBlock list \<times> int \<times> int \<times> BlockRequest list" where
  "processLoop conc i [] s = ([], s)"
| "processLoop conc i (request # rest) (ident, active, out) =
     (if \<not> q_active request then
        (let ident' = incrementId ident;
             br = (q_blockRequest request)\<lparr>br_id := ident'\<rparr>;
             request' = request\<lparr>q_blockRequest := br, q_active := True, q_timeout := Armed i\<rparr>;
             active' = active + 1
         in if active' \<ge> conc then (request' # rest, ident', active', out @ [br])
            else (case processLoop conc (Suc i) rest (ident', active', out @ [br]) of
                    (rest', s') \<Rightarrow> (request' # rest', s')))
      else (case processLoop conc (Suc i) rest (ident, active, out) of
              (rest', s') \<Rightarrow> (request # rest', s')))"

text \<open>
  \<open>process\<close>: \<open>Array.prototype.sort\<close> is stable, as \<open>sort_key\<close> is; the comparator is
  \<open>a.priority - b.priority\<close>, so lower priority values come first.
\<close>

definition process :: "Request \<Rightarrow> Request" where
  "process st =
     (if length (requests st) = 0 \<or> totalActive st \<ge> concurrent st then st
      else
        (case processLoop (concurrent st) 0 (sort_key q_priority (requests st))
                (rq_id st, totalActive st, sent st) of
           (rs, ident, active, out) \<Rightarrow>
             st\<lparr>requests := rs, rq_id := ident, totalActive := active, sent := out\<rparr>))"

definition sameBlock :: "QueuedBlock \<Rightarrow> BlockRequest \<Rightarrow> bool" where
  "sameBlock request blockRequest =
     (br_fileId (q_blockRequest request) = br_fileId blockRequest
      \<and> b_offset (br_block (q_blockRequest request)) = b_offset (br_block blockRequest))"

text \<open>
  The first loop of \<open>add\<close>: the first queued request for the same (fileId, offset) gets the
  new priority assigned and the function returns; \<open>None\<close> when no request matches.
\<close>

fun addExisting :: "QueuedBlock list \<Rightarrow> BlockRequest \<Rightarrow> int \<Rightarrow> QueuedBlock list option" where
  "addExisting [] blockRequest priority = None"
| "addExisting (request # rest) blockRequest priority =
     (if sameBlock request blockRequest then Some (request\<lparr>q_priority := priority\<rparr> # rest)
      else map_option ((#) request) (addExisting rest blockRequest priority))"

definition add :: "Request \<Rightarrow> BlockRequest \<Rightarrow> int \<Rightarrow> nat option \<Rightarrow> Request" where
  "add st blockRequest priority callback =
     (case addExisting (requests st) blockRequest priority of
        Some rs \<Rightarrow> st\<lparr>requests := rs\<rparr>
      | None \<Rightarrow>
          process (enqueue st
            \<lparr>q_active = False, q_retries = 0, q_timeout = NoTimer,
             q_blockRequest = blockRequest, q_priority = priority, q_callback = callback\<rparr>))"

text \<open>The search of \<open>received\<close>: the first index whose request is active and has the id.\<close>

fun findActive :: "QueuedBlock list \<Rightarrow> int \<Rightarrow> nat option" where
  "findActive [] ident = None"
| "findActive (request # rest) ident =
     (if br_id (q_blockRequest request) = ident \<and> q_active request then Some 0
      else map_option Suc (findActive rest ident))"

definition invoke :: "Request \<Rightarrow> nat option \<Rightarrow> callback_args \<Rightarrow> Request" where
  "invoke st callback args =
     (case callback of None \<Rightarrow> st | Some f \<Rightarrow> st\<lparr>invoked := invoked st @ [(f, args)]\<rparr>)"

text \<open>
  \<open>received\<close>, with the SHA-256 function of Node's \<open>crypto\<close> as a parameter. The timer
  of the request found is cleared and the request dequeued before the hash is compared.
\<close>

definition received ::
  "(bytes \<Rightarrow> bytes) \<Rightarrow> Request \<Rightarrow> int \<Rightarrow> bytes \<Rightarrow> Request \<times> BlockRequest option" where
  "received sha256 st ident data =
     (case findActive (requests st) ident of
        None \<Rightarrow> (st, None)
      | Some i \<Rightarrow>
          (let st0 = st\<lparr>clearedTimeouts := clearedTimeouts st @ [q_timeout (requests st ! i)]\<rparr>;
               request = requests st0 ! i;
               st1 = dequeue st0 i;
               st2 = st1\<lparr>totalActive := totalActive st1 - 1\<rparr>;
               st3 = process st2
           in if sha256 data = b_hash (br_block (q_blockRequest request))
              then (invoke st3 (q_callback request) (CbData data), Some (q_blockRequest request))
              else (st3, None)))"

text \<open>The constructor: an empty queue, ids starting at 1.\<close>

definition newRequest :: "int \<Rightarrow> int \<Rightarrow> int \<Rightarrow> Request" where
  "newRequest conc tmo retr =
     \<lparr>requests = [], rq_id = 1, concurrent = conc, rq_timeout = tmo, totalActive = 0,
      retries = retr, sent = [], queueChanges = 0, invoked = [], clearedTimeouts = []\<rparr>"

text \<open>
  What identifies a queued entry whatever \<open>process\<close> does to it: its block request
  without the request id, its priority, retries and callback.
\<close>

definition queued :: "QueuedBlock \<Rightarrow> BlockRequest \<times> int \<times> int \<times> nat option" where
  "queued q = ((q_blockRequest q)\<lparr>br_id := 0\<rparr>, q_priority q, q_retries q, q_callback q)"

subsection \<open>A concrete queue\<close>

text \<open>
  A queue as \<open>Syncthing.ts\<close> builds it (5 concurrent requests, 2000 ms, 2 retries) after
  one \<open>add\<close> at \<open>user\<close> priority: the request is active, with request id 2. The stored
  block hash is 32 zero bytes; \<open>emptyDigest\<close> is the SHA-256 digest of the empty message.
\<close>

definition zeroHash :: bytes where
  "zeroHash = [0, 0, 0, 0, 0, 0, 0, 0, 0, 0, 0, 0, 0, 0, 0, 0,
               0, 0, 0, 0, 0, 0, 0, 0, 0, 0, 0, 0, 0, 0, 0, 0]"

definition emptyDigest :: bytes where
  "emptyDigest =
     [227, 176, 196, 66, 152, 252, 28, 20, 154, 251, 244, 200, 153, 111, 185, 36,
      39, 174, 65, 228, 100, 155, 147, 76, 164, 149, 153, 27, 120, 82, 184, 85]"

definition blockRequest1 :: BlockRequest where
  "blockRequest1 =
     \<lparr>br_id = 0, br_fileId = 7, br_folder = ''default'', br_name = ''/a.txt'',
      br_block = \<lparr>b_offset = 0, b_size = 4, b_hash = zeroHash, b_cached = 0\<rparr>\<rparr>"

definition queue1 :: Request where
  "queue1 = add (newRequest 5 2000 2) blockRequest1 user (Some 0)"

section \<open>peerSocket.ts: joining a relay session\<close>

text \<open>\<open>RelayMessageType\<close> and \<open>SessionJoinResponse\<close>.\<close>

definition JoinSessionRequest :: nat where "JoinSessionRequest = 3"
definition Response :: nat where "Response = 4"
definition ConnectRequest :: nat where "ConnectRequest = 5"
definition SessionInvitation :: nat where "SessionInvitation = 6"

definition ResponseNotFound :: nat where "ResponseNotFound = 1"
definition ResponseAlreadyConnected :: nat where "ResponseAlreadyConnected = 2"
definition ResponseSuccess :: nat where "ResponseSuccess = 3"

record ResponseMessage =
  rsp_code :: nat
  rsp_messageLength :: nat
  rsp_message :: bytes

record SessionInvitationMessage =
  inv_fromLength :: nat
  inv_from :: bytes
  inv_keyLength :: nat
  inv_key :: bytes
  inv_addressLength :: nat
  inv_address :: bytes
  inv_port :: nat

text \<open>The \<open>message\<close> field of a relay message: \<open>null\<close>, a response or a session invitation.\<close>

datatype relay_body = NoBody | ResponseBody ResponseMessage | InvitationBody SessionInvitationMessage

record RelayMessage =
  rm_type :: nat
  rm_length :: nat
  rm_data :: bytes
  rm_message :: relay_body

text \<open>
  \<open>DataView.getUint32\<close> and \<open>getUint16\<close> (big-endian) over the received bytes; \<open>None\<close> is
  the \<open>RangeError\<close> of a read past the end.
\<close>

definition getUint32 :: "bytes \<Rightarrow> nat \<Rightarrow> nat option" where
  "getUint32 d i =
     (if i + 4 \<le> length d
      then Some (((unat (d ! i) * 256 + unat (d ! (i + 1))) * 256 + unat (d ! (i + 2))) * 256
                 + unat (d ! (i + 3)))
      else None)"

definition getUint16 :: "bytes \<Rightarrow> nat \<Rightarrow> nat option" where
  "getUint16 d i =
     (if i + 2 \<le> length d then Some (unat (d ! i) * 256 + unat (d ! (i + 1))) else None)"

text \<open>\<open>subarray(begin, end)\<close> with \<open>0 \<le> begin\<close>: both ends are clamped to the length.\<close>

definition subarrayN :: "bytes \<Rightarrow> nat \<Rightarrow> nat \<Rightarrow> bytes" where
  "subarrayN d b e = take (e - b) (drop b d)"

definition relayMagic :: nat where
  "relayMagic = 0x9E79BC40"

definition decodeSessionInvitation :: "bytes \<Rightarrow> relay_body" where
  "decodeSessionInvitation d =
     (case getUint32 d 12 of
        None \<Rightarrow> NoBody
      | Some fromLength \<Rightarrow>
          (let fromIndex = 16; keyLengthIndex = fromIndex + fromLength; keyIndex = keyLengthIndex + 4
           in case getUint32 d keyLengthIndex of
                None \<Rightarrow> NoBody
              | Some keyLength \<Rightarrow>
                  (let addressLengthIndex = keyIndex + keyLength;
                       addressIndex = addressLengthIndex + 4
                   in case getUint32 d addressLengthIndex of
                        None \<Rightarrow> NoBody
                      | Some addressLength \<Rightarrow>
                          (let portIndex = 2 + addressIndex + addressLength
                           in case getUint16 d portIndex of
                                None \<Rightarrow> NoBody
                              | Some port \<Rightarrow>
                                  InvitationBody
                                    \<lparr>inv_fromLength = fromLength,
                                     inv_from = subarrayN d fromIndex (fromIndex + fromLength),
                                     inv_keyLength = keyLength,
                                     inv_key = subarrayN d keyIndex (keyIndex + keyLength),
                                     inv_addressLength = addressLength,
                                     inv_address =
                                       subarrayN d addressIndex (addressIndex + addressLength),
                                     inv_port = port\<rparr>))))"

definition decodeResponse :: "bytes \<Rightarrow> relay_body" where
  "decodeResponse d =
     (case getUint32 d 16 of
        None \<Rightarrow> NoBody
      | Some messageLength \<Rightarrow>
          (case getUint32 d 12 of
             None \<Rightarrow> NoBody
           | Some code \<Rightarrow>
               ResponseBody
                 \<lparr>rsp_code = code, rsp_messageLength = messageLength,
                  rsp_message = subarrayN d 20 (20 + messageLength)\<rparr>))"

definition relayProtocolDecodeMessage :: "bytes \<Rightarrow> RelayMessage" where
  "relayProtocolDecodeMessage d =
     (if length d < 12 \<or> getUint32 d 0 \<noteq> Some relayMagic
      then \<lparr>rm_type = 255, rm_length = 0, rm_data = [], rm_message = NoBody\<rparr>
      else
        (let ty = the (getUint32 d 4)
         in \<lparr>rm_type = ty, rm_length = the (getUint32 d 8), rm_data = drop 12 d,
             rm_message =
               (if ty = SessionInvitation then decodeSessionInvitation d
                else if ty = Response then decodeResponse d
                else NoBody)\<rparr>))"

text \<open>
  The part of \<open>connect\<close> that follows the reply to the join session request: what happens
  to the plain relay session socket, and whether it is wrapped in TLS (\<open>this.socket\<close>).
  A \<open>null\<close> message makes \<open>response.code\<close> throw a TypeError, which the enclosing
  \<open>catch\<close> turns into a plain return; on a session invitation object \<open>code\<close> is
  \<open>undefined\<close>, which is not \<open>ResponseNotFound\<close>.
\<close>

datatype socket_state = SocketOpen | SocketDestroyed

record join_outcome =
  relaySessionSocket :: socket_state
  upgradedToTLS :: bool

definition afterJoinSessionReply :: "RelayMessage \<Rightarrow> join_outcome" where
  "afterJoinSessionReply sessionRequestReply =
     (if rm_type sessionRequestReply \<noteq> Response
      then \<lparr>relaySessionSocket = SocketDestroyed, upgradedToTLS = False\<rparr>
      else
        (case rm_message sessionRequestReply of
           ResponseBody response \<Rightarrow>
             (if rsp_code response = ResponseNotFound
              then \<lparr>relaySessionSocket = SocketDestroyed, upgradedToTLS = False\<rparr>
              else \<lparr>relaySessionSocket = SocketOpen, upgradedToTLS = True\<rparr>)
         | InvitationBody invitation \<Rightarrow>
             \<lparr>relaySessionSocket = SocketOpen, upgradedToTLS = True\<rparr>
         | NoBody \<Rightarrow> \<lparr>relaySessionSocket = SocketOpen, upgradedToTLS = False\<rparr>))"

definition onJoinSessionData :: "bytes \<Rightarrow> join_outcome" where
  "onJoinSessionData d = afterJoinSessionReply (relayProtocolDecodeMessage d)"

text \<open>A relay \<open>Response\<close> frame with code 2 (already connected) and an empty message.\<close>

definition responseAlreadyConnected :: bytes where
  "responseAlreadyConnected =
     [0x9E, 0x79, 0xBC, 0x40,  0, 0, 0, 4,  0, 0, 0, 8,  0, 0, 0, 2,  0, 0, 0, 0]"

section \<open>constants.ts: the internal records\<close>

unbundle bit_operations_syntax

text \<open>\<open>SyncStatus\<close> and \<open>FileFlags\<close>, stored as numbers.\<close>

definition none :: int where "none = 0"
definition download :: int where "download = 1"
definition full :: int where "full = 2"

definition deleted :: int where "deleted = push_bit 0 1"
definition invalid :: int where "invalid = push_bit 1 1"
definition noPermissions :: int where "noPermissions = push_bit 2 1"

record File =
  f_name :: string
  f_size :: int
  f_permissions :: int
  f_modifiedS :: int
  f_modifiedNs :: int
  f_modifiedBy :: bytes
  f_flags :: int
  f_sequence :: int
  f_blockSize :: int
  f_version :: string
  f_symlinkTarget :: string
  f_sync :: int
  f_blocks :: "Block list"

record Directory =
  d_name :: string
  d_permissions :: int
  d_modifiedS :: int
  d_modifiedNs :: int
  d_modifiedBy :: bytes
  d_flags :: int
  d_sequence :: int
  d_version :: string
  d_sync :: int
  d_files :: "File list"

record Index =
  ix_folder :: string
  ix_directories :: "Directory list"

section \<open>Node's path module (POSIX)\<close>

text \<open>
  \<open>path.dirname\<close> and \<open>path.basename\<close> of Node, which the source imports. \<open>dirname\<close>
  scans from the right down to index 1: it skips trailing slashes, then the last
  component, and cuts at the slash before it; with no such slash the result is \<open>/\<close> for
  an absolute path and \<open>.\<close> otherwise. \<open>basename\<close> is the last run of characters other
  than \<open>/\<close>, trailing slashes skipped.
\<close>

definition isSlash :: "char \<Rightarrow> bool" where
  "isSlash c = (c = CHR ''/'')"

definition dirname :: "string \<Rightarrow> string" where
  "dirname path =
     (case path of
        [] \<Rightarrow> ''.''
      | c # cs \<Rightarrow>
          (case dropWhile (\<lambda>x. \<not> isSlash x) (dropWhile isSlash (rev cs)) of
             [] \<Rightarrow> (if isSlash c then ''/'' else ''.'')
           | s # front \<Rightarrow> (if isSlash c \<and> front = [] then ''//'' else c # rev front)))"

definition basename :: "string \<Rightarrow> string" where
  "basename path = rev (takeWhile (\<lambda>x. \<not> isSlash x) (dropWhile isSlash (rev path)))"

section \<open>communication.ts: decoding an Index message\<close>

text \<open>
  The records that protobufjs decodes from the wire (\<open>bep.proto\<close>): 64-bit fields arrive
  as \<open>Long\<close> objects, \<open>toNumber\<close> gives their value; \<open>version\<close> stands for the text
  \<open>JSON.stringify\<close> makes of the version vector.
\<close>

record WireBlock =
  wb_offset :: int
  wb_size :: int
  wb_hash :: bytes

record WireFile =
  w_name :: string
  w_type :: int
  w_size :: int
  w_permissions :: int
  w_modifiedS :: int
  w_modifiedNs :: int
  w_modifiedBy :: "64 word"
  w_deleted :: bool
  w_invalid :: bool
  w_noPermissions :: bool
  w_version :: string
  w_sequence :: int
  w_blockSize :: int
  w_blocks :: "WireBlock list"
  w_symlinkTarget :: string

record WireIndex =
  wi_folder :: string
  wi_files :: "WireFile list"

text \<open>\<open>Long.toBytesBE\<close>: the eight bytes of a 64-bit value, most significant first.\<close>

definition toBytesBE :: "64 word \<Rightarrow> bytes" where
  "toBytesBE w = map (\<lambda>k. ucast (drop_bit (8 * k) w)) [7, 6, 5, 4, 3, 2, 1, 0]"

definition combineFlags :: "WireFile \<Rightarrow> int" where
  "combineFlags item =
     (of_bool (w_deleted item) OR push_bit 1 (of_bool (w_invalid item))
        OR push_bit 2 (of_bool (w_noPermissions item)))"

definition decodeBlock :: "WireBlock \<Rightarrow> Block" where
  "decodeBlock decodedBlock =
     \<lparr>b_offset = wb_offset decodedBlock, b_size = wb_size decodedBlock,
      b_hash = wb_hash decodedBlock, b_cached = 0\<rparr>"

text \<open>
  A directory record: the first directory of the same name already in the index is
  replaced by the new entry (whose \<open>files\<close> is empty); \<open>None\<close> when none has the name.
\<close>

fun assignDirectory :: "Directory list \<Rightarrow> Directory \<Rightarrow> Directory list option" where
  "assignDirectory [] directory = None"
| "assignDirectory (d # ds) directory =
     (if d_name d = d_name directory then Some (directory # ds)
      else map_option ((#) d) (assignDirectory ds directory))"

text \<open>
  A file record: it is pushed on the files of the first directory whose name is the
  dirname of its name; \<open>None\<close> when there is none.
\<close>

fun attachFile :: "Directory list \<Rightarrow> string \<Rightarrow> File \<Rightarrow> Directory list option" where
  "attachFile [] parent file = None"
| "attachFile (d # ds) parent file =
     (if d_name d = parent then Some (d\<lparr>d_files := d_files d @ [file]\<rparr> # ds)
      else map_option ((#) d) (attachFile ds parent file))"

text \<open>
  The body of the loop over \<open>decodedMessage.files\<close>; the name gets its leading slash. The
  64-bit fields (size, modifiedS, sequence, and the offset of a block) are read with
  \<open>Long.toNumber\<close>; they keep their integer value here, which is what \<open>toNumber\<close> returns
  below \<open>2^53\<close> (beyond, the source's number is rounded).
\<close>

definition decodeFile :: "Directory list \<Rightarrow> WireFile \<Rightarrow> Directory list" where
  "decodeFile directories decodedFile =
     (let name = CHR ''/'' # w_name decodedFile in
      if w_type decodedFile = 1 then
        (let directory =
               \<lparr>d_name = name, d_permissions = w_permissions decodedFile,
                d_modifiedS = w_modifiedS decodedFile, d_modifiedNs = w_modifiedNs decodedFile,
                d_modifiedBy = toBytesBE (w_modifiedBy decodedFile),
                d_flags = combineFlags decodedFile, d_sequence = w_sequence decodedFile,
                d_version = w_version decodedFile, d_sync = none, d_files = []\<rparr>
         in case assignDirectory directories directory of
              Some ds \<Rightarrow> ds
            | None \<Rightarrow> directories @ [directory])
      else
        (let file =
               \<lparr>f_name = basename name, f_size = w_size decodedFile,
                f_permissions = w_permissions decodedFile,
                f_modifiedS = w_modifiedS decodedFile, f_modifiedNs = w_modifiedNs decodedFile,
                f_modifiedBy = toBytesBE (w_modifiedBy decodedFile),
                f_flags = combineFlags decodedFile, f_sequence = w_sequence decodedFile,
                f_blockSize = w_blockSize decodedFile, f_version = w_version decodedFile,
                f_symlinkTarget = w_symlinkTarget decodedFile, f_sync = none,
                f_blocks = map decodeBlock (w_blocks decodedFile)\<rparr>
         in case attachFile directories (dirname name) file of
              Some ds \<Rightarrow> ds
            | None \<Rightarrow>
                directories @
                  [\<lparr>d_name = dirname name, d_permissions = 0, d_modifiedS = 0, d_modifiedNs = 0,
                    d_modifiedBy = [], d_flags = 0, d_sequence = 0, d_version = [],
                    d_sync = none, d_files = [file]\<rparr>]))"

definition decodeIndex :: "WireIndex \<Rightarrow> Index" where
  "decodeIndex decodedMessage =
     \<lparr>ix_folder = wi_folder decodedMessage,
      ix_directories = foldl decodeFile [] (wi_files decodedMessage)\<rparr>"

subsection \<open>Two wire records: the file \<open>a/b.txt\<close> and its directory \<open>a\<close>\<close>

definition wireFileB :: WireFile where
  "wireFileB =
     \<lparr>w_name = ''a/b.txt'', w_type = 0, w_size = 4, w_permissions = 420, w_modifiedS = 1,
      w_modifiedNs = 0, w_modifiedBy = 0, w_deleted = False, w_invalid = False,
      w_noPermissions = False, w_version = ''{}'', w_sequence = 2, w_blockSize = 131072,
      w_blocks = [\<lparr>wb_offset = 0, wb_size = 4, wb_hash = zeroHash\<rparr>], w_symlinkTarget = []\<rparr>"

definition wireDirA :: WireFile where
  "wireDirA =
     \<lparr>w_name = ''a'', w_type = 1, w_size = 0, w_permissions = 493, w_modifiedS = 1,
      w_modifiedNs = 0, w_modifiedBy = 0, w_deleted = False, w_invalid = False,
      w_noPermissions = False, w_version = ''{}'', w_sequence = 1, w_blockSize = 0,
      w_blocks = [], w_symlinkTarget = []\<rparr>"

section \<open>sqlite.ts: the tables and the statements run on them\<close>

text \<open>
  The rows of the five tables of \<open>createSchema\<close>; a table is the list of its rows in
  insertion order. \<open>splitData\<close> stores an empty string as NULL and \<open>isRowEqual\<close> reads a
  NULL back as equal to the empty string, so a text column holds a string, empty for NULL.
  A NOT NULL text column refuses the empty string on insert.
\<close>

record FolderRow =
  fo_idString :: string
  fo_label :: string
  fo_path :: string
  fo_flags :: int
  fo_id :: int

record DeviceRow =
  dv_id :: bytes
  dv_folderId :: int
  dv_name :: string
  dv_addresses :: string
  dv_maxSequence :: int
  dv_maxSequenceInternal :: int
  dv_indexId :: bytes

record DirectoryRow =
  dr_id :: int
  dr_folderId :: int
  dr_name :: string
  dr_permissions :: int
  dr_modifiedS :: int
  dr_modifiedNs :: int
  dr_modifiedBy :: bytes
  dr_flags :: int
  dr_sequence :: int
  dr_version :: string
  dr_sync :: int

record FileRow =
  fr_id :: int
  fr_name :: string
  fr_directoryId :: int
  fr_size :: int
  fr_permissions :: int
  fr_modifiedS :: int
  fr_modifiedNs :: int
  fr_modifiedBy :: bytes
  fr_flags :: int
  fr_sequence :: int
  fr_blockSize :: int
  fr_version :: string
  fr_symlinkTarget :: string
  fr_sync :: int

record BlockRow =
  bl_fileId :: int
  bl_offset :: int
  bl_size :: int
  bl_hash :: bytes
  bl_cached :: int

text \<open>
  The database: the tables, and for each \<open>autoincrement\<close> key the largest id handed out so
  far (SQLite's \<open>sqlite_sequence\<close>).
\<close>

record Store =
  folders :: "FolderRow list"
  devices :: "DeviceRow list"
  directories :: "DirectoryRow list"
  files :: "FileRow list"
  blocks :: "BlockRow list"
  lastFolderId :: int
  lastDirectoryId :: int
  lastFileId :: int

definition emptyStore :: Store where
  "emptyStore =
     \<lparr>folders = [], devices = [], directories = [], files = [], blocks = [],
      lastFolderId = 0, lastDirectoryId = 0, lastFileId = 0\<rparr>"

text \<open>
  What is thrown inside a transaction: a NOT NULL or a UNIQUE constraint that fails in a
  statement, or the TypeError of reading a property of \<open>null\<close>.
\<close>

datatype sql_error = ConstraintNotNull | ConstraintUnique | TypeError

subsection \<open>Queries\<close>

definition getFolder :: "Store \<Rightarrow> string \<Rightarrow> FolderRow option" where
  "getFolder db idString = find (\<lambda>r. fo_idString r = idString) (folders db)"

definition getDevice :: "Store \<Rightarrow> int \<Rightarrow> bytes \<Rightarrow> DeviceRow option" where
  "getDevice db folderId ident =
     find (\<lambda>r. dv_id r = ident \<and> dv_folderId r = folderId) (devices db)"

definition getDirectory :: "Store \<Rightarrow> int \<Rightarrow> string \<Rightarrow> DirectoryRow option" where
  "getDirectory db folderId name =
     find (\<lambda>r. dr_name r = name \<and> dr_folderId r = folderId) (directories db)"

definition getFile :: "Store \<Rightarrow> int \<Rightarrow> string \<Rightarrow> FileRow option" where
  "getFile db directoryId name =
     find (\<lambda>r. fr_name r = name \<and> fr_directoryId r = directoryId) (files db)"

text \<open>\<open>getBlocks\<close>: the blocks of a file, \<open>ORDER BY offset\<close>.\<close>

definition getBlocks :: "Store \<Rightarrow> int \<Rightarrow> BlockRow list" where
  "getBlocks db fileId = sort_key bl_offset (filter (\<lambda>r. bl_fileId r = fileId) (blocks db))"

text \<open>
  The joins: a row of \<open>directory LEFT JOIN folder\<close> pairs a directory with the folder
  whose id is its \<open>folderId\<close>; the \<open>WHERE\<close> clause on \<open>folder.path\<close> drops the directories
  with no folder.
\<close>

definition getDirectoryFolderPath :: "Store \<Rightarrow> string \<Rightarrow> string \<Rightarrow> DirectoryRow option" where
  "getDirectoryFolderPath db folderPath name =
     find (\<lambda>d. dr_name d = name \<and> list_ex (\<lambda>f. fo_id f = dr_folderId d \<and> fo_path f = folderPath) (folders db))
       (directories db)"

definition getFileParentName :: "Store \<Rightarrow> string \<Rightarrow> string \<Rightarrow> string \<Rightarrow> FileRow option" where
  "getFileParentName db folderPath directoryName name =
     find (\<lambda>r. fr_name r = name \<and>
              list_ex (\<lambda>d. dr_id d = fr_directoryId r \<and> dr_name d = directoryName \<and>
                        list_ex (\<lambda>f. fo_id f = dr_folderId d \<and> fo_path f = folderPath) (folders db))
                (directories db))
       (files db)"

definition getBlocksOffset ::
  "Store \<Rightarrow> string \<Rightarrow> string \<Rightarrow> string \<Rightarrow> int \<Rightarrow> int \<Rightarrow> BlockRow list" where
  "getBlocksOffset db folderPath directoryName fileName position len =
     sort_key bl_offset
       (filter (\<lambda>b. bl_offset b < position + len \<and> bl_offset b + bl_size b > position \<and>
                  list_ex (\<lambda>r. fr_id r = bl_fileId b \<and> fr_name r = fileName \<and>
                     list_ex (\<lambda>d. dr_id d = fr_directoryId r \<and> dr_name d = directoryName \<and>
                        list_ex (\<lambda>f. fo_id f = dr_folderId d \<and> fo_path f = folderPath) (folders db))
                       (directories db))
                    (files db))
          (blocks db))"

subsection \<open>Inserts, updates and deletes\<close>

record Device =
  de_id :: bytes
  de_folderIdString :: string
  de_name :: string
  de_addresses :: string
  de_maxSequence :: int
  de_indexId :: bytes

record Folder =
  fd_idString :: string
  fd_label :: string
  fd_path :: string
  fd_flags :: int
  fd_devices :: "Device list"

record Cluster =
  cl_folders :: "Folder list"

text \<open>\<open>addFolder\<close> returns the new row id (\<open>lastInsertRowid\<close>) with the database.\<close>

definition addFolder :: "Store \<Rightarrow> Folder \<Rightarrow> sql_error + (Store \<times> int)" where
  "addFolder db folder =
     (if fd_idString folder = [] then Inl ConstraintNotNull
      else if list_ex (\<lambda>r. fo_idString r = fd_idString folder) (folders db) then Inl ConstraintUnique
      else
        (let ident = lastFolderId db + 1 in
         Inr (db\<lparr>folders := folders db @
                      [\<lparr>fo_idString = fd_idString folder, fo_label = fd_label folder,
                        fo_path = fd_path folder, fo_flags = fd_flags folder, fo_id = ident\<rparr>],
                 lastFolderId := ident\<rparr>, ident)))"

definition updateFolder :: "Store \<Rightarrow> Folder \<Rightarrow> int \<Rightarrow> sql_error + Store" where
  "updateFolder db folder ident =
     (if \<not> list_ex (\<lambda>r. fo_id r = ident) (folders db) then Inr db
      else if fd_idString folder = [] then Inl ConstraintNotNull
      else if list_ex (\<lambda>r. fo_id r \<noteq> ident \<and> fo_idString r = fd_idString folder) (folders db)
      then Inl ConstraintUnique
      else Inr (db\<lparr>folders :=
                  map (\<lambda>r. if fo_id r = ident
                           then r\<lparr>fo_idString := fd_idString folder, fo_label := fd_label folder,
                                  fo_path := fd_path folder, fo_flags := fd_flags folder\<rparr>
                           else r) (folders db)\<rparr>))"

text \<open>\<open>addDevice\<close>: the index id stored is \<open>indexId\<close>, which the caller takes from the
  device or, for this device itself, from \<open>randomBytes(8)\<close>.\<close>

definition addDevice :: "Store \<Rightarrow> Device \<Rightarrow> int \<Rightarrow> bytes \<Rightarrow> sql_error + Store" where
  "addDevice db device folderId indexId =
     (if list_ex (\<lambda>r. dv_id r = de_id device \<and> dv_folderId r = folderId) (devices db)
      then Inl ConstraintUnique
      else Inr (db\<lparr>devices := devices db @
                  [\<lparr>dv_id = de_id device, dv_folderId = folderId, dv_name = de_name device,
                    dv_addresses = de_addresses device, dv_maxSequence = de_maxSequence device,
                    dv_maxSequenceInternal = 0, dv_indexId = indexId\<rparr>]\<rparr>))"

definition updateDevice :: "Store \<Rightarrow> Device \<Rightarrow> bytes \<Rightarrow> int \<Rightarrow> int \<Rightarrow> Store" where
  "updateDevice db device ident folderId maxSequenceInternal =
     db\<lparr>devices :=
          map (\<lambda>r. if dv_id r = ident \<and> dv_folderId r = folderId
                   then r\<lparr>dv_maxSequenceInternal := maxSequenceInternal, dv_name := de_name device,
                          dv_addresses := de_addresses device,
                          dv_maxSequence := de_maxSequence device, dv_indexId := de_indexId device\<rparr>
                   else r) (devices db)\<rparr>"

definition updateSequence :: "Store \<Rightarrow> bytes \<Rightarrow> int \<Rightarrow> int \<Rightarrow> Store" where
  "updateSequence db deviceId folderId sequence =
     db\<lparr>devices :=
          map (\<lambda>r. if dv_id r = deviceId \<and> dv_folderId r = folderId
                   then r\<lparr>dv_maxSequenceInternal := sequence, dv_folderId := folderId\<rparr>
                   else r) (devices db)\<rparr>"

definition toDirectoryRow :: "Directory \<Rightarrow> int \<Rightarrow> int \<Rightarrow> DirectoryRow" where
  "toDirectoryRow directory folderId ident =
     \<lparr>dr_id = ident, dr_folderId = folderId, dr_name = d_name directory,
      dr_permissions = d_permissions directory, dr_modifiedS = d_modifiedS directory,
      dr_modifiedNs = d_modifiedNs directory, dr_modifiedBy = d_modifiedBy directory,
      dr_flags = d_flags directory, dr_sequence = d_sequence directory,
      dr_version = d_version directory, dr_sync = d_sync directory\<rparr>"

definition addDirectory :: "Store \<Rightarrow> Directory \<Rightarrow> int \<Rightarrow> sql_error + (Store \<times> int)" where
  "addDirectory db directory folderId =
     (if d_name directory = [] then Inl ConstraintNotNull
      else if list_ex (\<lambda>r. dr_folderId r = folderId \<and> dr_name r = d_name directory) (directories db)
      then Inl ConstraintUnique
      else
        (let ident = lastDirectoryId db + 1 in
         Inr (db\<lparr>directories := directories db @ [toDirectoryRow directory folderId ident],
                 lastDirectoryId := ident\<rparr>, ident)))"

definition updateDirectory :: "Store \<Rightarrow> Directory \<Rightarrow> int \<Rightarrow> int \<Rightarrow> sql_error + Store" where
  "updateDirectory db directory folderId ident =
     (if \<not> list_ex (\<lambda>r. dr_id r = ident) (directories db) then Inr db
      else if d_name directory = [] then Inl ConstraintNotNull
      else if list_ex (\<lambda>r. dr_id r \<noteq> ident \<and> dr_folderId r = folderId \<and> dr_name r = d_name directory)
                (directories db)
      then Inl ConstraintUnique
      else Inr (db\<lparr>directories :=
                  map (\<lambda>r. if dr_id r = ident then toDirectoryRow directory folderId ident else r)
                    (directories db)\<rparr>))"

definition toFileRow :: "File \<Rightarrow> int \<Rightarrow> int \<Rightarrow> FileRow" where
  "toFileRow file directoryId ident =
     \<lparr>fr_id = ident, fr_name = f_name file, fr_directoryId = directoryId, fr_size = f_size file,
      fr_permissions = f_permissions file, fr_modifiedS = f_modifiedS file,
      fr_modifiedNs = f_modifiedNs file, fr_modifiedBy = f_modifiedBy file,
      fr_flags = f_flags file, fr_sequence = f_sequence file, fr_blockSize = f_blockSize file,
      fr_version = f_version file, fr_symlinkTarget = f_symlinkTarget file,
      fr_sync = f_sync file\<rparr>"

definition addFile :: "Store \<Rightarrow> File \<Rightarrow> int \<Rightarrow> sql_error + (Store \<times> int)" where
  "addFile db file directoryId =
     (if f_name file = [] then Inl ConstraintNotNull
      else if list_ex (\<lambda>r. fr_directoryId r = directoryId \<and> fr_name r = f_name file) (files db)
      then Inl ConstraintUnique
      else
        (let ident = lastFileId db + 1 in
         Inr (db\<lparr>files := files db @ [toFileRow file directoryId ident], lastFileId := ident\<rparr>,
              ident)))"

definition updateFile :: "Store \<Rightarrow> File \<Rightarrow> int \<Rightarrow> int \<Rightarrow> sql_error + Store" where
  "updateFile db file directoryId ident =
     (if \<not> list_ex (\<lambda>r. fr_id r = ident) (files db) then Inr db
      else if f_name file = [] then Inl ConstraintNotNull
      else if list_ex (\<lambda>r. fr_id r \<noteq> ident \<and> fr_directoryId r = directoryId \<and> fr_name r = f_name file)
                (files db)
      then Inl ConstraintUnique
      else Inr (db\<lparr>files :=
                  map (\<lambda>r. if fr_id r = ident then toFileRow file directoryId ident else r)
                    (files db)\<rparr>))"

definition toBlockRow :: "Block \<Rightarrow> int \<Rightarrow> BlockRow" where
  "toBlockRow block fileId =
     \<lparr>bl_fileId = fileId, bl_offset = b_offset block, bl_size = b_size block,
      bl_hash = b_hash block, bl_cached = b_cached block\<rparr>"

definition addBlock :: "Store \<Rightarrow> Block \<Rightarrow> int \<Rightarrow> sql_error + Store" where
  "addBlock db block fileId =
     (if list_ex (\<lambda>r. bl_fileId r = fileId \<and> bl_offset r = b_offset block) (blocks db)
      then Inl ConstraintUnique
      else Inr (db\<lparr>blocks := blocks db @ [toBlockRow block fileId]\<rparr>))"

text \<open>\<open>updateBlock\<close> rewrites the row found by (fileId, offset); it may move the row to a
  new offset, which fails when another row of the file already has that offset.\<close>

definition updateBlock :: "Store \<Rightarrow> Block \<Rightarrow> int \<Rightarrow> int \<Rightarrow> sql_error + Store" where
  "updateBlock db block fileId offset =
     (if \<not> list_ex (\<lambda>r. bl_fileId r = fileId \<and> bl_offset r = offset) (blocks db) then Inr db
      else if b_offset block \<noteq> offset \<and>
              list_ex (\<lambda>r. bl_fileId r = fileId \<and> bl_offset r = b_offset block) (blocks db)
      then Inl ConstraintUnique
      else Inr (db\<lparr>blocks :=
                  map (\<lambda>r. if bl_fileId r = fileId \<and> bl_offset r = offset
                           then toBlockRow block fileId else r) (blocks db)\<rparr>))"

definition deleteBlock :: "Store \<Rightarrow> int \<Rightarrow> int \<Rightarrow> Store" where
  "deleteBlock db fileId offset =
     db\<lparr>blocks := filter (\<lambda>r. \<not> (bl_fileId r = fileId \<and> bl_offset r = offset)) (blocks db)\<rparr>"

section \<open>database.ts: paths and attributes\<close>

text \<open>
  Node's \<open>path.parse\<close> (the fields \<open>root\<close>, \<open>dir\<close> and \<open>base\<close>; POSIX): the base is the last
  run of characters other than \<open>/\<close>, trailing slashes skipped; \<open>dir\<close> is what precedes
  the slash before the base, and the root when there is no such slash.
\<close>

record ParsedPath =
  pp_root :: string
  pp_dir :: string
  pp_base :: string

definition parse :: "string \<Rightarrow> ParsedPath" where
  "parse path =
     (if path = [] then \<lparr>pp_root = [], pp_dir = [], pp_base = []\<rparr>
      else
        (let isAbsolute = isSlash (hd path);
             root = (if isAbsolute then ''/'' else []);
             region = rev (if isAbsolute then tl path else path);
             part = dropWhile isSlash region;
             base = rev (takeWhile (\<lambda>x. \<not> isSlash x) part)
         in case dropWhile (\<lambda>x. \<not> isSlash x) part of
              [] \<Rightarrow> \<lparr>pp_root = root, pp_dir = root, pp_base = base\<rparr>
            | s # front \<Rightarrow> \<lparr>pp_root = root, pp_dir = root @ rev front, pp_base = base\<rparr>))"

text \<open>\<open>String.prototype.split\<close> on a one-character separator.\<close>

fun splitOn :: "char \<Rightarrow> string \<Rightarrow> string list" where
  "splitOn c [] = [[]]"
| "splitOn c (x # xs) =
     (if x = c then [] # splitOn c xs
      else (case splitOn c xs of s # ss \<Rightarrow> (x # s) # ss | [] \<Rightarrow> [[x]]))"

text \<open>
  Node's \<open>path.join\<close> and \<open>path.normalize\<close>: the non-empty arguments are joined by \<open>/\<close>
  and normalized: empty and \<open>.\<close> segments are dropped, a \<open>..\<close> segment removes the segment
  before it (or is kept when the path is relative and nothing precedes it). The result
  segments are kept in reverse in \<open>normalizeSegments\<close>.
\<close>

fun normalizeSegments :: "bool \<Rightarrow> string list \<Rightarrow> string list \<Rightarrow> string list" where
  "normalizeSegments allowAboveRoot res [] = rev res"
| "normalizeSegments allowAboveRoot res (seg # segs) =
     (if seg = [] \<or> seg = ''.'' then normalizeSegments allowAboveRoot res segs
      else if seg = ''..'' then
        (case res of
           [] \<Rightarrow> normalizeSegments allowAboveRoot (if allowAboveRoot then [''..''] else []) segs
         | r # rs \<Rightarrow>
             (if r = ''..''
              then normalizeSegments allowAboveRoot (if allowAboveRoot then ''..'' # res else res) segs
              else normalizeSegments allowAboveRoot rs segs))
      else normalizeSegments allowAboveRoot (seg # res) segs)"

fun joinWith :: "char \<Rightarrow> string list \<Rightarrow> string" where
  "joinWith c [] = []"
| "joinWith c [s] = s"
| "joinWith c (s # t # ss) = s @ c # joinWith c (t # ss)"

definition normalize :: "string \<Rightarrow> string" where
  "normalize path =
     (if path = [] then ''.''
      else
        (let isAbsolute = isSlash (hd path);
             trailingSeparator = isSlash (last path);
             p = joinWith CHR ''/'' (normalizeSegments (\<not> isAbsolute) [] (splitOn CHR ''/'' path))
         in if p = [] then (if isAbsolute then ''/'' else if trailingSeparator then ''./'' else ''.'')
            else (if isAbsolute then ''/'' else []) @ p @ (if trailingSeparator then ''/'' else [])))"

definition join :: "string list \<Rightarrow> string" where
  "join args =
     (case filter (\<lambda>a. a \<noteq> []) args of
        [] \<Rightarrow> ''.''
      | parts \<Rightarrow> normalize (joinWith CHR ''/'' parts))"

definition sep :: string where
  "sep = ''/''"

definition endsWithSep :: "string \<Rightarrow> bool" where
  "endsWithSep path = (path \<noteq> [] \<and> isSlash (last path))"

record SplitPath =
  sp_folder :: string
  sp_dir :: string
  sp_file :: string

definition splitPath :: "string \<Rightarrow> SplitPath" where
  "splitPath path =
     (let parsedPath = parse path in
      if pp_dir parsedPath = pp_root parsedPath
      then \<lparr>sp_folder = pp_base parsedPath, sp_dir = sep, sp_file = []\<rparr>
      else
        (let dirs0 = splitOn CHR ''/'' (drop (length (pp_root parsedPath)) (pp_dir parsedPath));
             folder = hd dirs0;
             dirs = tl dirs0
         in if endsWithSep path
            then \<lparr>sp_folder = folder, sp_dir = sep @ join (dirs @ [pp_base parsedPath]), sp_file = []\<rparr>
            else \<lparr>sp_folder = folder, sp_dir = sep @ (if dirs \<noteq> [] then join dirs else []),
                  sp_file = pp_base parsedPath\<rparr>))"

text \<open>
  A \<open>ListEntry\<close>; \<open>modified\<close> is the \<open>Date\<close> as milliseconds since the epoch. The entry for
  \<open>/\<close> carries the current time, a parameter here. The time value is an integer here; the
  source's \<open>new Date(modifiedS * 1000)\<close> is an invalid date beyond 8.64e15 ms.
\<close>

datatype ListEntryType = EntryFile | EntryDirectory | EntrySymlink

record ListEntry =
  le_type :: ListEntryType
  le_name :: string
  le_size :: int
  le_permissions :: int
  le_modified :: int
  le_modifiedBy :: int

definition directoryEntry :: "DirectoryRow \<Rightarrow> ListEntry" where
  "directoryEntry directoryRow =
     \<lparr>le_type = EntryDirectory, le_name = dr_name directoryRow, le_size = 0,
      le_permissions = dr_permissions directoryRow,
      le_modified = dr_modifiedS directoryRow * 1000, le_modifiedBy = 0\<rparr>"

definition fileEntry :: "FileRow \<Rightarrow> ListEntry" where
  "fileEntry fileRow =
     \<lparr>le_type = EntryFile, le_name = fr_name fileRow, le_size = fr_size fileRow,
      le_permissions = fr_permissions fileRow,
      le_modified = fr_modifiedS fileRow * 1000, le_modifiedBy = 0\<rparr>"

text \<open>The directory branch of \<open>attributes\<close>: it tests \<open>flags & FileFlags.deleted\<close>.\<close>

definition attributesDirectory :: "Store \<Rightarrow> SplitPath \<Rightarrow> ListEntry option" where
  "attributesDirectory db dirPath =
     (case getDirectoryFolderPath db (sp_folder dirPath) (sp_dir dirPath) of
        None \<Rightarrow> None
      | Some directoryRow \<Rightarrow>
          (if dr_flags directoryRow AND deleted = 0 then Some (directoryEntry directoryRow)
           else None))"

text \<open>
  \<open>attributes\<close>; \<open>None\<close> is \<open>null\<close>. The file branch tests
  \<open>!(fileRow.flags * FileFlags.deleted)\<close>, a product, which is true exactly when the
  product is 0.
\<close>

definition attributes :: "int \<Rightarrow> Store \<Rightarrow> string \<Rightarrow> ListEntry option" where
  "attributes now db path =
     (if path = ''/'' then
        Some \<lparr>le_type = EntryDirectory, le_name = ''/'', le_size = 0, le_permissions = 493,
              le_modified = now, le_modifiedBy = 0\<rparr>
      else
        (let dirPath = splitPath (path @ sep) in
         if sp_folder dirPath = [] then None
         else if \<not> endsWithSep path then
           (let filePath = splitPath path in
            case getFileParentName db (sp_folder filePath) (sp_dir filePath) (sp_file filePath) of
              None \<Rightarrow> attributesDirectory db dirPath
            | Some fileRow \<Rightarrow>
                (if fr_flags fileRow * deleted = 0 then Some (fileEntry fileRow)
                 else attributesDirectory db dirPath))
         else attributesDirectory db dirPath))"

subsection \<open>A store with one file whose only flag is \<open>invalid\<close>\<close>

text \<open>
  Folder \<open>default\<close> with its root directory and the file \<open>/a.txt\<close>, as an Index message
  with \<open>invalid = true\<close> for \<open>a.txt\<close> leaves it: the file's flags are 2.
\<close>

definition invalidFileRow :: FileRow where
  "invalidFileRow =
     \<lparr>fr_id = 1, fr_name = ''a.txt'', fr_directoryId = 1, fr_size = 4, fr_permissions = 420,
      fr_modifiedS = 1, fr_modifiedNs = 0, fr_modifiedBy = [0, 0, 0, 0, 0, 0, 0, 0],
      fr_flags = invalid, fr_sequence = 1, fr_blockSize = 131072, fr_version = ''{}'',
      fr_symlinkTarget = [], fr_sync = 0\<rparr>"

definition invalidFileStore :: Store where
  "invalidFileStore =
     \<lparr>folders = [\<lparr>fo_idString = ''default'', fo_label = ''Default'', fo_path = ''default'',
                  fo_flags = 0, fo_id = 1\<rparr>],
      devices = [],
      directories = [\<lparr>dr_id = 1, dr_folderId = 1, dr_name = ''/'', dr_permissions = 493,
                      dr_modifiedS = 0, dr_modifiedNs = 0, dr_modifiedBy = [], dr_flags = 0,
                      dr_sequence = 0, dr_version = [], dr_sync = 0\<rparr>],
      files = [invalidFileRow],
      blocks = [\<lparr>bl_fileId = 1, bl_offset = 0, bl_size = 4, bl_hash = zeroHash, bl_cached = 0\<rparr>],
      lastFolderId = 1, lastDirectoryId = 1, lastFileId = 1\<rparr>"

section \<open>database.ts: transactions\<close>

text \<open>
  A transaction either commits the database it built or rolls back, leaving the database
  as it was. \<open>foldE\<close> runs a loop body over a list and stops at the first exception.
\<close>

datatype 'a transaction = Committed 'a | RolledBack

fun foldE :: "('s \<Rightarrow> 'a \<Rightarrow> 'e + 's) \<Rightarrow> 'a list \<Rightarrow> 's \<Rightarrow> 'e + 's" where
  "foldE f [] s = Inr s"
| "foldE f (x # xs) s = (case f s x of Inl e \<Rightarrow> Inl e | Inr s' \<Rightarrow> foldE f xs s')"

text \<open>
  \<open>isRowEqual\<close> compares the properties of the data that the row has too, except the
  ignored ones: for a folder \<open>idString\<close>, \<open>label\<close>, \<open>path\<close> and \<open>flags\<close> (the row has no
  \<open>devices\<close>); for a device \<open>id\<close>, \<open>name\<close>, \<open>addresses\<close>, \<open>maxSequence\<close> and \<open>indexId\<close> (the
  row has no \<open>folderIdString\<close>).
\<close>

definition folderEqualsRow :: "Folder \<Rightarrow> FolderRow \<Rightarrow> bool" where
  "folderEqualsRow folder folderRow =
     (fd_idString folder = fo_idString folderRow \<and> fd_label folder = fo_label folderRow
      \<and> fd_path folder = fo_path folderRow \<and> fd_flags folder = fo_flags folderRow)"

definition deviceEqualsRow :: "Device \<Rightarrow> DeviceRow \<Rightarrow> bool" where
  "deviceEqualsRow device deviceRow =
     (de_id device = dv_id deviceRow \<and> de_name device = dv_name deviceRow
      \<and> de_addresses device = dv_addresses deviceRow
      \<and> de_maxSequence device = dv_maxSequence deviceRow
      \<and> de_indexId device = dv_indexId deviceRow)"

section \<open>database.ts: updateClusterConfig\<close>

text \<open>
  The body of the loop over the devices of a folder. The state is the database and the
  number of \<open>randomBytes(8)\<close> values drawn so far in this call; \<open>randomBytes k\<close> is the
  \<open>k\<close>-th value. \<open>name\<close> and \<open>deviceId\<close> are the fields of the \<open>Database\<close> object.
\<close>

definition updateClusterDevice ::
  "string \<Rightarrow> bytes \<Rightarrow> (nat \<Rightarrow> bytes) \<Rightarrow> int \<Rightarrow> Store \<times> nat \<Rightarrow> Device
     \<Rightarrow> sql_error + (Store \<times> nat)" where
  "updateClusterDevice name deviceId randomBytes folderId s device0 =
     (case s of (db, drawn) \<Rightarrow>
       (let isSelf = (de_id device0 = deviceId);
            deviceRow = getDevice db folderId (de_id device0);
            device = (if isSelf then device0\<lparr>de_name := name\<rparr> else device0)
        in case deviceRow of
             None \<Rightarrow>
               (if isSelf
                then (case addDevice db device folderId (randomBytes drawn) of
                        Inl e \<Rightarrow> Inl e | Inr db' \<Rightarrow> Inr (db', Suc drawn))
                else (case addDevice db device folderId (de_indexId device) of
                        Inl e \<Rightarrow> Inl e | Inr db' \<Rightarrow> Inr (db', drawn)))
           | Some row \<Rightarrow>
               (if \<not> deviceEqualsRow device row then
                  (let maxSequenceInternal =
                         (if \<not> isSelf \<and> de_indexId device \<noteq> dv_indexId row then 0
                          else dv_maxSequenceInternal row)
                   in Inr (updateDevice db device (dv_id row) folderId maxSequenceInternal, drawn))
                else Inr (db, drawn))))"

text \<open>The body of the loop over the folders: \<open>folder.path\<close> is set to \<open>folder.idString\<close>.\<close>

definition updateClusterFolder ::
  "string \<Rightarrow> bytes \<Rightarrow> (nat \<Rightarrow> bytes) \<Rightarrow> Store \<times> nat \<Rightarrow> Folder
     \<Rightarrow> sql_error + (Store \<times> nat)" where
  "updateClusterFolder name deviceId randomBytes s folder0 =
     (case s of (db, drawn) \<Rightarrow>
       (let folderRow = getFolder db (fd_idString folder0);
            folder = folder0\<lparr>fd_path := fd_idString folder0\<rparr>
        in case (case folderRow of
                   None \<Rightarrow> addFolder db folder
                 | Some row \<Rightarrow>
                     (if \<not> folderEqualsRow folder row
                      then (case updateFolder db folder (fo_id row) of
                              Inl e \<Rightarrow> Inl e | Inr db' \<Rightarrow> Inr (db', fo_id row))
                      else Inr (db, fo_id row))) of
             Inl e \<Rightarrow> Inl e
           | Inr (db1, folderId) \<Rightarrow>
               foldE (updateClusterDevice name deviceId randomBytes folderId)
                 (fd_devices folder) (db1, drawn)))"

definition updateClusterConfig ::
  "string \<Rightarrow> bytes \<Rightarrow> (nat \<Rightarrow> bytes) \<Rightarrow> Store \<Rightarrow> Cluster \<Rightarrow> Store transaction" where
  "updateClusterConfig name deviceId randomBytes db cluster =
     (case foldE (updateClusterFolder name deviceId randomBytes) (cl_folders cluster) (db, 0) of
        Inl e \<Rightarrow> RolledBack
      | Inr (db', drawn) \<Rightarrow> Committed db')"

text \<open>
  The cluster object after a call: \<open>updateClusterConfig\<close> assigns \<open>folder.path\<close> and, for
  this device, \<open>device.name\<close> in the object it was given.
\<close>

definition clusterAfter :: "string \<Rightarrow> bytes \<Rightarrow> Cluster \<Rightarrow> Cluster" where
  "clusterAfter name deviceId cluster =
     \<lparr>cl_folders =
        map (\<lambda>folder.
               folder\<lparr>fd_path := fd_idString folder,
                      fd_devices :=
                        map (\<lambda>device. if de_id device = deviceId then device\<lparr>de_name := name\<rparr>
                                        else device) (fd_devices folder)\<rparr>)
          (cl_folders cluster)\<rparr>"

subsection \<open>A cluster config that lists this device\<close>

text \<open>
  The peer shares folder \<open>default\<close> with this device and does not know this device's index
  id yet: it sends 0 for it. The random index id drawn on the first insert is 1, ..., 8.
\<close>

definition selfId :: bytes where
  "selfId =
     [11, 18, 25, 32, 39, 46, 53, 60, 67, 74, 81, 88, 95, 102, 109, 116,
      123, 130, 137, 144, 151, 158, 165, 172, 179, 186, 193, 200, 207, 214, 221, 228]"

definition peerId :: bytes where
  "peerId =
     [200, 213, 226, 239, 252, 9, 22, 35, 48, 61, 74, 87, 100, 113, 126, 139,
      152, 165, 178, 191, 204, 217, 230, 243, 0, 13, 26, 39, 52, 65, 78, 91]"

definition drawnIndexId :: bytes where
  "drawnIndexId = [1, 2, 3, 4, 5, 6, 7, 8]"

definition peerCluster :: Cluster where
  "peerCluster =
     \<lparr>cl_folders =
        [\<lparr>fd_idString = ''default'', fd_label = ''Default'', fd_path = [], fd_flags = 0,
          fd_devices =
            [\<lparr>de_id = peerId, de_folderIdString = ''default'', de_name = ''server'',
              de_addresses = ''dynamic'', de_maxSequence = 5,
              de_indexId = [0, 0, 0, 0, 0, 0, 0, 9]\<rparr>,
             \<lparr>de_id = selfId, de_folderIdString = ''default'', de_name = ''laptop'',
              de_addresses = ''dynamic'', de_maxSequence = 0,
              de_indexId = [0, 0, 0, 0, 0, 0, 0, 0]\<rparr>]\<rparr>]\<rparr>"

definition storeAfterCluster :: Store where
  "storeAfterCluster =
     \<lparr>folders = [\<lparr>fo_idString = ''default'', fo_label = ''Default'', fo_path = ''default'',
                  fo_flags = 0, fo_id = 1\<rparr>],
      devices =
        [\<lparr>dv_id = peerId, dv_folderId = 1, dv_name = ''server'', dv_addresses = ''dynamic'',
          dv_maxSequence = 5, dv_maxSequenceInternal = 0, dv_indexId = [0, 0, 0, 0, 0, 0, 0, 9]\<rparr>,
         \<lparr>dv_id = selfId, dv_folderId = 1, dv_name = ''client'', dv_addresses = ''dynamic'',
          dv_maxSequence = 0, dv_maxSequenceInternal = 0, dv_indexId = drawnIndexId\<rparr>],
      directories = [], files = [], blocks = [],
      lastFolderId = 1, lastDirectoryId = 0, lastFileId = 0\<rparr>"

section \<open>database.ts: updateIndex\<close>

text \<open>
  \<open>isRowEqual\<close> on a directory and a file ignores \<open>sequence\<close> (and \<open>files\<close>, \<open>blocks\<close>, which
  the rows do not have); on a block it ignores \<open>cached\<close>.
\<close>

definition directoryEqualsRow :: "Directory \<Rightarrow> DirectoryRow \<Rightarrow> bool" where
  "directoryEqualsRow entry row =
     (d_name entry = dr_name row \<and> d_permissions entry = dr_permissions row
      \<and> d_modifiedS entry = dr_modifiedS row \<and> d_modifiedNs entry = dr_modifiedNs row
      \<and> d_modifiedBy entry = dr_modifiedBy row \<and> d_flags entry = dr_flags row
      \<and> d_version entry = dr_version row \<and> d_sync entry = dr_sync row)"

definition fileEqualsRow :: "File \<Rightarrow> FileRow \<Rightarrow> bool" where
  "fileEqualsRow entry row =
     (f_name entry = fr_name row \<and> f_size entry = fr_size row
      \<and> f_permissions entry = fr_permissions row
      \<and> f_modifiedS entry = fr_modifiedS row \<and> f_modifiedNs entry = fr_modifiedNs row
      \<and> f_modifiedBy entry = fr_modifiedBy row \<and> f_flags entry = fr_flags row
      \<and> f_blockSize entry = fr_blockSize row \<and> f_version entry = fr_version row
      \<and> f_symlinkTarget entry = fr_symlinkTarget row \<and> f_sync entry = fr_sync row)"

definition blockEqualsRow :: "Block \<Rightarrow> BlockRow \<Rightarrow> bool" where
  "blockEqualsRow block row =
     (b_offset block = bl_offset row \<and> b_size block = bl_size row \<and> b_hash block = bl_hash row)"

text \<open>
  The rows a transaction writes, in order: each insert with the row inserted, each update
  with the row as it was and as it is written, each delete with the row deleted.
\<close>

datatype change =
    DirectoryInserted DirectoryRow
  | DirectoryUpdated DirectoryRow DirectoryRow
  | FileInserted FileRow
  | FileUpdated FileRow FileRow
  | BlockInserted BlockRow
  | BlockUpdated BlockRow BlockRow
  | BlockDeleted BlockRow

text \<open>
  \<open>updateBlocks\<close>. The source's \<open>blocks.sort\<close> has a comparator that returns \<open>undefined\<close>,
  so the (stable) sort leaves the blocks in the order of the message. The loop walks the
  new blocks and the stored rows (read once, ordered by offset) side by side. The state
  is the database, the local \<open>updated\<close> and the rows written.
\<close>

fun updateBlocksLoop ::
  "int \<Rightarrow> Block list \<Rightarrow> BlockRow list \<Rightarrow> Store \<times> bool \<times> change list
     \<Rightarrow> sql_error + (Store \<times> bool \<times> change list)" where
  "updateBlocksLoop fileId [] [] s = Inr s"
| "updateBlocksLoop fileId (block # bs) (row # rows) (db, updated, written) =
     (if \<not> blockEqualsRow block row then
        (let block' = (if bl_cached row = 1 then block\<lparr>b_cached := 2\<rparr> else block)
         in case updateBlock db block' fileId (bl_offset row) of
              Inl e \<Rightarrow> Inl e
            | Inr db' \<Rightarrow>
                updateBlocksLoop fileId bs rows
                  (db', True, written @ [BlockUpdated row (toBlockRow block' fileId)]))
      else updateBlocksLoop fileId bs rows (db, updated, written))"
| "updateBlocksLoop fileId (block # bs) [] (db, updated, written) =
     (let block' = block\<lparr>b_cached := 0\<rparr>
      in case addBlock db block' fileId of
           Inl e \<Rightarrow> Inl e
         | Inr db' \<Rightarrow>
             updateBlocksLoop fileId bs []
               (db', True, written @ [BlockInserted (toBlockRow block' fileId)]))"
| "updateBlocksLoop fileId [] (row # rows) (db, updated, written) =
     (if bl_cached row \<noteq> 0 then
        (let row' = row\<lparr>bl_size := 0, bl_cached := 2\<rparr>;
             block' = \<lparr>b_offset = bl_offset row', b_size = bl_size row', b_hash = bl_hash row',
                       b_cached = bl_cached row'\<rparr>
         in case updateBlock db block' fileId (bl_offset row) of
              Inl e \<Rightarrow> Inl e
            | Inr db' \<Rightarrow>
                updateBlocksLoop fileId [] rows
                  (db', True, written @ [BlockUpdated row (toBlockRow block' fileId)]))
      else updateBlocksLoop fileId [] rows
             (deleteBlock db fileId (bl_offset row), updated, written @ [BlockDeleted row]))"

definition updateBlocks ::
  "Store \<Rightarrow> int \<Rightarrow> Block list \<Rightarrow> change list \<Rightarrow> sql_error + (Store \<times> bool \<times> change list)" where
  "updateBlocks db fileId newBlocks written =
     updateBlocksLoop fileId newBlocks (getBlocks db fileId) (db, False, written)"

text \<open>
  \<open>updateEntry\<close>, for a directory and for a file: the result object, and the entry with
  the \<open>sequence\<close> and \<open>sync\<close> the function assigns to it. The counter is an integer
  here; the source's \<open>sequence++\<close> is exact below \<open>2^53\<close>.
\<close>

record EntryResult =
  er_updated :: bool
  er_add :: bool
  er_update :: bool
  er_sequence :: int
  er_valid :: bool

definition updateEntryDirectory ::
  "Directory \<Rightarrow> DirectoryRow option \<Rightarrow> int \<Rightarrow> int \<Rightarrow> Directory \<times> EntryResult" where
  "updateEntryDirectory entry entryRow parentSync sequence =
     (case entryRow of
        None \<Rightarrow>
          (if d_flags entry AND deleted \<noteq> 0
           then (entry, \<lparr>er_updated = False, er_add = False, er_update = False,
                         er_sequence = sequence, er_valid = False\<rparr>)
           else (entry\<lparr>d_sequence := sequence, d_sync := parentSync\<rparr>,
                 \<lparr>er_updated = (parentSync = full), er_add = True, er_update = False,
                  er_sequence = sequence + 1, er_valid = True\<rparr>))
      | Some row \<Rightarrow>
          (if \<not> directoryEqualsRow entry row
           then (entry\<lparr>d_sequence := sequence\<rparr>,
                 \<lparr>er_updated = (dr_sync row = full), er_add = False, er_update = True,
                  er_sequence = sequence + 1, er_valid = True\<rparr>)
           else (entry, \<lparr>er_updated = False, er_add = False, er_update = False,
                         er_sequence = sequence, er_valid = True\<rparr>)))"

definition updateEntryFile ::
  "File \<Rightarrow> FileRow option \<Rightarrow> int \<Rightarrow> int \<Rightarrow> File \<times> EntryResult" where
  "updateEntryFile entry entryRow parentSync sequence =
     (case entryRow of
        None \<Rightarrow>
          (if f_flags entry AND deleted \<noteq> 0
           then (entry, \<lparr>er_updated = False, er_add = False, er_update = False,
                         er_sequence = sequence, er_valid = False\<rparr>)
           else (entry\<lparr>f_sequence := sequence, f_sync := parentSync\<rparr>,
                 \<lparr>er_updated = (parentSync = full), er_add = True, er_update = False,
                  er_sequence = sequence + 1, er_valid = True\<rparr>))
      | Some row \<Rightarrow>
          (if \<not> fileEqualsRow entry row
           then (entry\<lparr>f_sequence := sequence\<rparr>,
                 \<lparr>er_updated = (fr_sync row = full), er_add = False, er_update = True,
                  er_sequence = sequence + 1, er_valid = True\<rparr>)
           else (entry, \<lparr>er_updated = False, er_add = False, er_update = False,
                         er_sequence = sequence, er_valid = True\<rparr>)))"

text \<open>\<open>String.prototype.lastIndexOf\<close> for a one-character needle: the last index, or -1.\<close>

definition lastIndexOf :: "string \<Rightarrow> char \<Rightarrow> int" where
  "lastIndexOf s c =
     (let r = indexOf (rev s) c in if r = -1 then -1 else int (length s) - 1 - r)"

text \<open>
  The variables of \<open>updateIndex\<close> that its loops change: the database of the open
  transaction, \<open>updated\<close>, \<open>sequence\<close>, and the rows written so far. An exception carries
  the value \<open>updated\<close> has when it is thrown, which is what \<open>updateIndex\<close> then returns.
\<close>

record IndexTx =
  tx_db :: Store
  tx_updated :: bool
  tx_sequence :: int
  tx_written :: "change list"

text \<open>The body of the loop over the files of a directory.\<close>

definition updateIndexFile ::
  "int \<Rightarrow> int \<Rightarrow> IndexTx \<Rightarrow> File \<Rightarrow> (sql_error \<times> bool) + IndexTx" where
  "updateIndexFile directoryId sync tx file0 =
     (let db = tx_db tx;
          fileRow = getFile db directoryId (f_name file0)
      in case updateEntryFile file0 fileRow sync (tx_sequence tx) of
           (file, entryResult) \<Rightarrow>
             (if \<not> er_valid entryResult then Inr tx
              else
                (case (if er_add entryResult
                       then (case addFile db file directoryId of
                               Inl e \<Rightarrow> Inl e
                             | Inr (db', fileId) \<Rightarrow>
                                 Inr (db', fileId, [FileInserted (toFileRow file directoryId fileId)]))
                       else (case fileRow of
                               None \<Rightarrow> Inl TypeError
                             | Some row \<Rightarrow>
                                 (if er_update entryResult
                                  then (case updateFile db file directoryId (fr_id row) of
                                          Inl e \<Rightarrow> Inl e
                                        | Inr db' \<Rightarrow>
                                            Inr (db', fr_id row,
                                                 [FileUpdated row
                                                    (toFileRow file directoryId (fr_id row))]))
                                  else Inr (db, fr_id row, [])))) of
                   Inl e \<Rightarrow> Inl (e, tx_updated tx)
                 | Inr (db1, fileId, w) \<Rightarrow>
                     (let updated1 = (tx_updated tx \<or> er_updated entryResult)
                      in case updateBlocks db1 fileId (f_blocks file) (tx_written tx @ w) of
                           Inl e \<Rightarrow> Inl (e, updated1)
                         | Inr (db2, blocksUpdated, written) \<Rightarrow>
                             Inr \<lparr>tx_db = db2, tx_updated = (updated1 \<or> blocksUpdated),
                                  tx_sequence = er_sequence entryResult,
                                  tx_written = written\<rparr>))))"

text \<open>
  The body of the loop over the directories of the index: \<open>sync\<close> is the sync status of
  the row of the parent directory (0 when the name has no parent or the parent has no
  row); the files of the directory are processed with the same \<open>sync\<close>.
\<close>

definition parentSyncOf :: "Store \<Rightarrow> int \<Rightarrow> string \<Rightarrow> int" where
  "parentSyncOf db folderId name =
     (let lastSeparator = lastIndexOf name CHR ''/'' in
      if lastSeparator > 0 then
        (case getDirectory db folderId (take (nat lastSeparator) name) of
           None \<Rightarrow> 0
         | Some parentDirectoryRow \<Rightarrow> dr_sync parentDirectoryRow)
      else 0)"

definition updateIndexDirectory ::
  "int \<Rightarrow> IndexTx \<Rightarrow> Directory \<Rightarrow> (sql_error \<times> bool) + IndexTx" where
  "updateIndexDirectory folderId tx directory0 =
     (let db = tx_db tx;
          sync = parentSyncOf db folderId (d_name directory0);
          directoryRow = getDirectory db folderId (d_name directory0)
      in case updateEntryDirectory directory0 directoryRow sync (tx_sequence tx) of
           (directory, entryResult) \<Rightarrow>
             (if \<not> er_valid entryResult then Inr tx
              else
                (case (if er_add entryResult
                       then (case addDirectory db directory folderId of
                               Inl e \<Rightarrow> Inl e
                             | Inr (db', directoryId) \<Rightarrow>
                                 Inr (db', directoryId,
                                      [DirectoryInserted (toDirectoryRow directory folderId directoryId)]))
                       else (case directoryRow of
                               None \<Rightarrow> Inl TypeError
                             | Some row \<Rightarrow>
                                 (if er_update entryResult
                                  then (case updateDirectory db directory folderId (dr_id row) of
                                          Inl e \<Rightarrow> Inl e
                                        | Inr db' \<Rightarrow>
                                            Inr (db', dr_id row,
                                                 [DirectoryUpdated row
                                                    (toDirectoryRow directory folderId (dr_id row))]))
                                  else Inr (db, dr_id row, [])))) of
                   Inl e \<Rightarrow> Inl (e, tx_updated tx)
                 | Inr (db1, directoryId, w) \<Rightarrow>
                     foldE (updateIndexFile directoryId sync) (d_files directory)
                       \<lparr>tx_db = db1, tx_updated = (tx_updated tx \<or> er_updated entryResult),
                        tx_sequence = er_sequence entryResult,
                        tx_written = tx_written tx @ w\<rparr>)))"

text \<open>The root directory entry that \<open>updateIndex\<close> adds when the folder has none.\<close>

definition rootDirectory :: "int \<Rightarrow> Directory" where
  "rootDirectory sequence =
     \<lparr>d_name = ''/'', d_permissions = 493, d_modifiedS = 0, d_modifiedNs = 0, d_modifiedBy = [],
      d_flags = 0, d_sequence = sequence, d_version = [], d_sync = 0, d_files = []\<rparr>"

definition ensureRootDirectory :: "Store \<Rightarrow> int \<Rightarrow> int \<Rightarrow> (sql_error \<times> bool) + IndexTx" where
  "ensureRootDirectory db folderId sequence =
     (case getDirectory db folderId ''/'' of
        Some rootDirectoryRow \<Rightarrow>
          Inr \<lparr>tx_db = db, tx_updated = False, tx_sequence = sequence, tx_written = []\<rparr>
      | None \<Rightarrow>
          (case addDirectory db (rootDirectory sequence) folderId of
             Inl e \<Rightarrow> Inl (e, False)
           | Inr (db', directoryId) \<Rightarrow>
               Inr \<lparr>tx_db = db', tx_updated = False, tx_sequence = sequence + 1,
                    tx_written =
                      [DirectoryInserted (toDirectoryRow (rootDirectory sequence) folderId directoryId)]\<rparr>))"

text \<open>
  \<open>updateIndex\<close>: the outcome of the transaction, the value returned (\<open>updated\<close>) and the
  rows the committed transaction wrote (none after a rollback). \<open>deviceId\<close> is the field
  of the \<open>Database\<close> object. The sequence is written back only when \<open>updated\<close> is true.
\<close>

definition updateIndex :: "bytes \<Rightarrow> Store \<Rightarrow> Index \<Rightarrow> Store transaction \<times> bool \<times> change list" where
  "updateIndex deviceId db index =
     (case getFolder db (ix_folder index) of
        None \<Rightarrow> (RolledBack, False, [])
      | Some folderRow \<Rightarrow>
          (case getDevice db (fo_id folderRow) deviceId of
             None \<Rightarrow> (RolledBack, False, [])
           | Some deviceRow \<Rightarrow>
               (case ensureRootDirectory db (fo_id folderRow) (dv_maxSequenceInternal deviceRow) of
                  Inl (e, updated) \<Rightarrow> (RolledBack, updated, [])
                | Inr tx0 \<Rightarrow>
                    (case foldE (updateIndexDirectory (fo_id folderRow)) (ix_directories index) tx0 of
                       Inl (e, updated) \<Rightarrow> (RolledBack, updated, [])
                     | Inr tx \<Rightarrow>
                         (Committed
                            (if tx_updated tx
                             then updateSequence (tx_db tx) deviceId (fo_id folderRow) (tx_sequence tx)
                             else tx_db tx),
                          tx_updated tx, tx_written tx)))))"

text \<open>
  Whether a written row makes \<open>updateIndex\<close> return true, and the sequence numbers
  assigned to the directory and file rows written.
\<close>

fun triggers :: "change \<Rightarrow> bool" where
  "triggers (DirectoryInserted row) = (dr_sync row = full)"
| "triggers (DirectoryUpdated old new) = (dr_sync old = full)"
| "triggers (FileInserted row) = (fr_sync row = full)"
| "triggers (FileUpdated old new) = (fr_sync old = full)"
| "triggers (BlockInserted row) = True"
| "triggers (BlockUpdated old new) = True"
| "triggers (BlockDeleted row) = False"

fun assignedSequence :: "change \<Rightarrow> int list" where
  "assignedSequence (DirectoryInserted row) = [dr_sequence row]"
| "assignedSequence (DirectoryUpdated old new) = [dr_sequence new]"
| "assignedSequence (FileInserted row) = [fr_sequence row]"
| "assignedSequence (FileUpdated old new) = [fr_sequence new]"
| "assignedSequence (BlockInserted row) = []"
| "assignedSequence (BlockUpdated old new) = []"
| "assignedSequence (BlockDeleted row) = []"

definition assignedSequences :: "change list \<Rightarrow> int list" where
  "assignedSequences written = concat (map assignedSequence written)"


subsection \<open>The invariant of the loops of \<open>updateIndex\<close>\<close>

text \<open>
  Statements on blocks leave the device, directory and file tables (and the counter of
  directory ids) as they are. In the
  loops of \<open>updateIndex\<close>, \<open>updated\<close> is true exactly when a row written so far triggers
  it, every sequence assigned so far is below the counter, the device table is untouched,
  and every directory and file row is a row of the database the transaction started from
  or has a sequence below the counter.
\<close>

definition sameCatalog :: "Store \<Rightarrow> Store \<Rightarrow> bool" where
  "sameCatalog db db' =
     (devices db' = devices db \<and> directories db' = directories db \<and> files db' = files db
      \<and> lastDirectoryId db' = lastDirectoryId db)"

definition txInv :: "Store \<Rightarrow> IndexTx \<Rightarrow> bool" where
  "txInv db0 tx =
     (tx_updated tx = list_ex triggers (tx_written tx)
      \<and> list_all (\<lambda>s. s < tx_sequence tx) (assignedSequences (tx_written tx))
      \<and> devices (tx_db tx) = devices db0
      \<and> list_all (\<lambda>r. r \<in> set (directories db0) \<or> dr_sequence r < tx_sequence tx)
           (directories (tx_db tx))
      \<and> list_all (\<lambda>r. r \<in> set (files db0) \<or> fr_sequence r < tx_sequence tx)
           (files (tx_db tx)))"

subsection \<open>The rows written as changes of the store\<close>







subsection \<open>Two Index messages for the folder of the cluster config\<close>

definition indexDirOnly :: Index where
  "indexDirOnly = decodeIndex \<lparr>wi_folder = ''default'', wi_files = [wireDirA]\<rparr>"

definition indexDirAndFile :: Index where
  "indexDirAndFile = decodeIndex \<lparr>wi_folder = ''default'', wi_files = [wireDirA, wireFileB]\<rparr>"

text \<open>The rows these messages insert into the store left by the cluster config.\<close>

definition rootRow :: DirectoryRow where
  "rootRow =
     \<lparr>dr_id = 1, dr_folderId = 1, dr_name = ''/'', dr_permissions = 493, dr_modifiedS = 0,
      dr_modifiedNs = 0, dr_modifiedBy = [], dr_flags = 0, dr_sequence = 0, dr_version = [],
      dr_sync = 0\<rparr>"

definition rowA :: DirectoryRow where
  "rowA =
     \<lparr>dr_id = 2, dr_folderId = 1, dr_name = ''/a'', dr_permissions = 493, dr_modifiedS = 1,
      dr_modifiedNs = 0, dr_modifiedBy = [0, 0, 0, 0, 0, 0, 0, 0], dr_flags = 0,
      dr_sequence = 1, dr_version = ''{}'', dr_sync = 0\<rparr>"

definition rowB :: FileRow where
  "rowB =
     \<lparr>fr_id = 1, fr_name = ''b.txt'', fr_directoryId = 2, fr_size = 4, fr_permissions = 420,
      fr_modifiedS = 1, fr_modifiedNs = 0, fr_modifiedBy = [0, 0, 0, 0, 0, 0, 0, 0],
      fr_flags = 0, fr_sequence = 2, fr_blockSize = 131072, fr_version = ''{}'',
      fr_symlinkTarget = [], fr_sync = 0\<rparr>"

definition blockRowB :: BlockRow where
  "blockRowB = \<lparr>bl_fileId = 1, bl_offset = 0, bl_size = 4, bl_hash = zeroHash, bl_cached = 0\<rparr>"

definition storeDirOnly :: Store where
  "storeDirOnly = storeAfterCluster\<lparr>directories := [rootRow, rowA], lastDirectoryId := 2\<rparr>"

definition storeDirAndFile :: Store where
  "storeDirAndFile =
     (updateSequence storeAfterCluster selfId 1 3)
       \<lparr>directories := [rootRow, rowA], files := [rowB], blocks := [blockRowB],
        lastDirectoryId := 2, lastFileId := 1\<rparr>"

subsection \<open>An Index message for a directory below \<open>/a\<close>\<close>

definition wireDirC :: WireFile where
  "wireDirC =
     \<lparr>w_name = ''a/c'', w_type = 1, w_size = 0, w_permissions = 493, w_modifiedS = 2,
      w_modifiedNs = 0, w_modifiedBy = 0, w_deleted = False, w_invalid = False,
      w_noPermissions = False, w_version = ''{}'', w_sequence = 3, w_blockSize = 0,
      w_blocks = [], w_symlinkTarget = []\<rparr>"

definition wireFileD :: WireFile where
  "wireFileD =
     \<lparr>w_name = ''a/c/d.txt'', w_type = 0, w_size = 0, w_permissions = 420, w_modifiedS = 2,
      w_modifiedNs = 0, w_modifiedBy = 0, w_deleted = False, w_invalid = False,
      w_noPermissions = False, w_version = ''{}'', w_sequence = 4, w_blockSize = 131072,
      w_blocks = [], w_symlinkTarget = []\<rparr>"

definition indexDirC :: Index where
  "indexDirC = decodeIndex \<lparr>wi_folder = ''default'', wi_files = [wireDirC, wireFileD]\<rparr>"

text \<open>
  The rows this message inserts into the store \<open>storeDirOnly\<close>, whose counter
  \<open>maxSequenceInternal\<close> is 0, and the store it leaves. \<open>storeFullA\<close> is \<open>storeDirOnly\<close> with
  the sync of the directory \<open>/a\<close> set to full, \<open>storeFileFull\<close> is \<open>storeDirAndFile\<close> with
  the sync of the file \<open>/a/b.txt\<close> set to full.
\<close>

definition rowC :: DirectoryRow where
  "rowC =
     \<lparr>dr_id = 3, dr_folderId = 1, dr_name = ''/a/c'', dr_permissions = 493, dr_modifiedS = 2,
      dr_modifiedNs = 0, dr_modifiedBy = [0, 0, 0, 0, 0, 0, 0, 0], dr_flags = 0,
      dr_sequence = 0, dr_version = ''{}'', dr_sync = 0\<rparr>"

definition rowD :: FileRow where
  "rowD =
     \<lparr>fr_id = 1, fr_name = ''d.txt'', fr_directoryId = 3, fr_size = 0, fr_permissions = 420,
      fr_modifiedS = 2, fr_modifiedNs = 0, fr_modifiedBy = [0, 0, 0, 0, 0, 0, 0, 0],
      fr_flags = 0, fr_sequence = 1, fr_blockSize = 131072, fr_version = ''{}'',
      fr_symlinkTarget = [], fr_sync = 0\<rparr>"

definition storeDirC :: Store where
  "storeDirC =
     storeDirOnly\<lparr>directories := [rootRow, rowA, rowC], files := [rowD],
                   lastDirectoryId := 3, lastFileId := 1\<rparr>"



definition storeFileFull :: Store where
  "storeFileFull = storeDirAndFile\<lparr>files := [rowB\<lparr>fr_sync := full\<rparr>]\<rparr>"

definition storeFileReset :: Store where
  "storeFileReset =
     (updateSequence storeDirAndFile selfId 1 4)\<lparr>files := [rowB\<lparr>fr_sequence := 3\<rparr>]\<rparr>"

text \<open>
  \<open>storeStale\<close> is \<open>storeDirAndFile\<close> after the only block of \<open>/a/b.txt\<close>, once cached, was
  dropped by the peer: the row is kept with size 0 and marked stale. \<open>indexNoBlocks\<close> lists
  the file as it is stored, with no block.
\<close>

definition wireFileBNoBlocks :: WireFile where
  "wireFileBNoBlocks = wireFileB\<lparr>w_blocks := []\<rparr>"

definition indexNoBlocks :: Index where
  "indexNoBlocks =
     decodeIndex \<lparr>wi_folder = ''default'', wi_files = [wireDirA, wireFileBNoBlocks]\<rparr>"

definition staleRowB :: BlockRow where
  "staleRowB = blockRowB\<lparr>bl_size := 0, bl_cached := 2\<rparr>"

definition storeStale :: Store where
  "storeStale = storeDirAndFile\<lparr>blocks := [staleRowB]\<rparr>"

section \<open>database.ts and Syncthing.ts: read\<close>

text \<open>\<open>Database.updateBlock\<close> and \<open>blocksToSatisfyRead\<close>.\<close>

definition databaseUpdateBlock :: "Store \<Rightarrow> BlockRequest \<Rightarrow> sql_error + Store" where
  "databaseUpdateBlock db blockRequest =
     updateBlock db (br_block blockRequest) (br_fileId blockRequest)
       (b_offset (br_block blockRequest))"

definition blocksToSatisfyRead :: "Store \<Rightarrow> string \<Rightarrow> int \<Rightarrow> int \<Rightarrow> BlockRequest list" where
  "blocksToSatisfyRead db path position len =
     (let sp = splitPath path in
      map (\<lambda>blockRow.
             \<lparr>br_id = 0, br_fileId = bl_fileId blockRow, br_folder = sp_folder sp,
              br_name = join [sp_dir sp, sp_file sp],
              br_block = \<lparr>b_offset = bl_offset blockRow, b_size = bl_size blockRow,
                          b_hash = bl_hash blockRow, b_cached = bl_cached blockRow\<rparr>\<rparr>)
        (getBlocksOffset db (sp_folder sp) (sp_dir sp) (sp_file sp) position len))"

text \<open>
  A promise as \<open>await\<close> sees it: resolved with a value, rejected, or never settled. What a
  call of the asynchronous \<open>read\<close> comes to: it resolves to a byte array, it resolves to
  \<open>undefined\<close>, or it never settles.
\<close>

datatype 'a promise = Resolved 'a | Rejected string | Pending

datatype read_result = ResolvedBytes bytes | ResolvedUndefined | NeverSettles

text \<open>
  \<open>TypedArray.prototype.subarray(begin, end)\<close>: a negative index counts from the end, and
  both are clamped to the array. \<open>TypedArray.prototype.set(source, offset)\<close> throws a
  RangeError (here \<open>None\<close>) when the source does not fit at the offset.
\<close>

definition subarray :: "bytes \<Rightarrow> int \<Rightarrow> int \<Rightarrow> bytes" where
  "subarray d b e =
     (let len = int (length d);
          from = (if b < 0 then max (len + b) 0 else min b len);
          to = (if e < 0 then max (len + e) 0 else min e len)
      in take (nat (to - from)) (drop (nat from) d))"

definition typedArraySet :: "bytes \<Rightarrow> bytes \<Rightarrow> int \<Rightarrow> bytes option" where
  "typedArraySet target source offset =
     (if offset < 0 \<or> int (length source) + offset > int (length target) then None
      else Some (take (nat offset) target @ source @ drop (nat offset + length source) target))"

text \<open>
  The \<open>while (blockReads.length)\<close> loop of \<open>read\<close>. \<open>wait\<close> gives the promise of
  \<open>this.requests.wait(blockRequest, RequestPriority.user)\<close>. A block the database calls
  cached whose data comes back empty is marked stale (in the request object and in the
  database) and awaited again from the peer. Any exception ends in the \<open>catch\<close> of
  \<open>read\<close>, whose \<open>new Uint8Array(0)\<close> is not returned: the call resolves to \<open>undefined\<close>.
\<close>

function readLoop ::
  "(BlockRequest \<Rightarrow> bytes promise) \<Rightarrow> int \<Rightarrow> int \<Rightarrow> (BlockRequest \<times> bytes promise) list
     \<Rightarrow> Store \<Rightarrow> bytes \<Rightarrow> int \<Rightarrow> read_result \<times> Store" where
  "readLoop wait position len [] db readData readOffset =
     (ResolvedBytes (subarray readData 0 readOffset), db)"
| "readLoop wait position len ((blockRequest, blockPromise) # rest) db readData readOffset =
     (case blockPromise of
        Rejected err \<Rightarrow> (ResolvedUndefined, db)
      | Pending \<Rightarrow> (NeverSettles, db)
      | Resolved blockData \<Rightarrow>
          (let block = br_block blockRequest in
           if b_cached block = 1 \<and> length blockData = 0 then
             (let blockRequest' = blockRequest\<lparr>br_block := block\<lparr>b_cached := 2\<rparr>\<rparr>
              in case databaseUpdateBlock db blockRequest' of
                   Inl e \<Rightarrow> (ResolvedUndefined, db)
                 | Inr db' \<Rightarrow>
                     readLoop wait position len ((blockRequest', wait blockRequest') # rest)
                       db' readData readOffset)
           else
             (let relativeStart = position - b_offset block;
                  start = (if relativeStart < 0 then 0 else relativeStart);
                  relativeEnd = relativeStart + len;
                  end = (if relativeEnd > b_size block then b_size block else relativeEnd)
              in case typedArraySet readData (subarray blockData start end) readOffset of
                   None \<Rightarrow> (ResolvedUndefined, db)
                 | Some readData' \<Rightarrow>
                     readLoop wait position len rest db readData'
                       (readOffset + (end - start)))))"
  by pat_completeness auto
termination
  by (relation "measure (\<lambda>(wait, position, len, blockReads, db, readData, readOffset).
        2 * length blockReads
        + (case blockReads of
             [] \<Rightarrow> 0
           | (blockRequest, blockPromise) # rest \<Rightarrow>
               (if b_cached (br_block blockRequest) = 1 then 1 else 0)))")
    (auto split: list.splits)

text \<open>
  \<open>read\<close>. \<open>readBlock\<close> gives the promise of \<open>File.readBlock\<close> on the cache file of a
  block. \<open>new Uint8Array(length)\<close> throws a RangeError for a negative length.
\<close>

definition read ::
  "Store \<Rightarrow> (BlockRequest \<Rightarrow> bytes promise) \<Rightarrow> (BlockRequest \<Rightarrow> bytes promise)
     \<Rightarrow> string \<Rightarrow> int \<Rightarrow> int \<Rightarrow> read_result \<times> Store" where
  "read db readBlock wait path position len =
     (if len > 10485760 then (ResolvedBytes [], db)
      else
        (let blockRequests = blocksToSatisfyRead db path position len in
         if len < 0 then (ResolvedUndefined, db)
         else
           readLoop wait position len
             (map (\<lambda>blockRequest.
                     (blockRequest,
                      if b_cached (br_block blockRequest) = 1 then readBlock blockRequest
                      else wait blockRequest)) blockRequests)
             db (replicate (nat len) 0) 0))"

subsection \<open>The block request for the file \<open>/a/b.txt\<close> of folder \<open>default\<close>\<close>

definition requestB :: BlockRequest where
  "requestB =
     \<lparr>br_id = 0, br_fileId = 1, br_folder = ''default'', br_name = ''/a/b.txt'',
      br_block = \<lparr>b_offset = 0, b_size = 4, b_hash = zeroHash, b_cached = 0\<rparr>\<rparr>"

section \<open>Check digits: what the code computes\<close>

lemma alphabetSize_32: "alphabetSize = 32"
  by (simp add: alphabetSize_def alphabet_def)


lemma indexOf_mem: "c \<in> set s \<Longrightarrow> 0 \<le> indexOf s c \<and> indexOf s c < int (length s)"
  by (induction s) (auto simp: Let_def)

lemma js_rem_nonneg: "0 \<le> a \<Longrightarrow> 0 < b \<Longrightarrow> js_rem a b = a mod b"
  by (cases "a = 0") (simp_all add: js_rem_def)

lemma floor_term: "0 \<le> a \<Longrightarrow>
  \<lfloor>(of_int a / of_int alphabetSize :: rat) + of_int (js_rem a alphabetSize)\<rfloor> = a div 32 + a mod 32"
proof -
  assume a: "0 \<le> a"
  have "\<lfloor>(of_int a / of_int 32 :: rat) + of_int (a mod 32)\<rfloor> = \<lfloor>(of_int a / of_int 32 :: rat)\<rfloor> + a mod 32"
    by (simp only: floor_add_int)
  also have "\<lfloor>(of_int a / of_int 32 :: rat)\<rfloor> = a div 32"
    by (rule floor_divide_of_int_eq)
  finally show ?thesis using a by (simp add: alphabetSize_32 js_rem_nonneg)
qed

lemma checkDigitLoop_sum:
  "set grp \<subseteq> set alphabet \<Longrightarrow> w = 1 \<or> w = 2 \<Longrightarrow>
   checkDigitLoop grp s w = Inr (s + weightedSum grp w)"
proof (induction grp arbitrary: s w)
  case Nil
  then show ?case by simp
next
  case (Cons c cs)
  then have mem: "c \<in> set alphabet" by simp
  have ge: "0 \<le> indexOf alphabet c" using indexOf_mem [OF mem] by simp
  have nn: "0 \<le> w * indexOf alphabet c" using ge Cons.prems(2) by auto
  have w': "(if w = 1 then 2 else 1) = (1::int) \<or> (if w = 1 then 2 else 1) = (2::int)"
    by simp
  have rest: "set cs \<subseteq> set alphabet" using Cons.prems(1) by simp
  show ?case
    using ge Cons.IH [OF rest w'] floor_term [OF nn]
    by (simp add: Let_def add.assoc)
qed

lemma weightedSum_nonneg: "set grp \<subseteq> set alphabet \<Longrightarrow> 0 \<le> w \<Longrightarrow> 0 \<le> weightedSum grp w"
proof (induction grp arbitrary: w)
  case Nil
  then show ?case by simp
next
  case (Cons c cs)
  then have mem: "c \<in> set alphabet" by simp
  have ge: "0 \<le> indexOf alphabet c" using indexOf_mem [OF mem] by simp
  have nn: "0 \<le> w * indexOf alphabet c" using ge Cons.prems(2) by simp
  have "0 \<le> weightedSum cs (if w = 1 then 2 else 1)"
    using Cons.IH [of "if w = 1 then 2 else 1"] Cons.prems(1) by simp
  moreover have "0 \<le> (w * indexOf alphabet c) div 32" using nn by simp
  moreover have "0 \<le> (w * indexOf alphabet c) mod 32" by simp
  ultimately show ?case by simp
qed

text \<open>
  For a group over the alphabet the code returns the character at index
  \<open>32 - (sum mod 32)\<close>, with no final reduction modulo 32: when \<open>sum mod 32 = 0\<close> the
  index is 32, one past the alphabet, and the result is \<open>undefined\<close>.
\<close>

lemma calculateCheckDigit_computes:
  assumes "set grp \<subseteq> set alphabet"
  shows "calculateCheckDigit grp =
           Inr (if weightedSum grp 1 mod 32 = 0 then None
                else Some (alphabet ! nat (32 - weightedSum grp 1 mod 32)))"
proof -
  have nn: "0 \<le> weightedSum grp 1" using weightedSum_nonneg [OF assms] by simp
  have loop: "checkDigitLoop grp 0 1 = Inr (weightedSum grp 1)"
    using checkDigitLoop_sum [OF assms, of 1 0] by simp
  define m where "m = weightedSum grp 1 mod 32"
  have m: "0 \<le> m" "m < 32" by (simp_all add: m_def)
  have res: "calculateCheckDigit grp = Inr (charAt alphabet (32 - m))"
    using nn by (simp add: calculateCheckDigit_def loop alphabetSize_32 js_rem_nonneg m_def)
  have len: "int (length alphabet) = 32" by (simp add: alphabet_def)
  show ?thesis
  proof (cases "m = 0")
    case True
    then show ?thesis using res len by (simp add: charAt_def m_def [symmetric])
  next
    case False
    then have "0 \<le> 32 - m \<and> 32 - m < 32" using m by arith
    then show ?thesis using res len False by (simp add: charAt_def m_def [symmetric])
  qed
qed

text \<open>
  C2. The claim: for every 13-character group over the base32 alphabet,
  \<open>calculateCheckDigit\<close> returns a single character of the alphabet, the one at index
  \<open>(32 - sum mod 32) mod 32\<close>. The code omits the outer \<open>mod 32\<close>: for the 13-character
  group \<open>AAAAAAAAAAAAA\<close> the sum is 0, the claimed index is 0 (the character \<open>A\<close>), but
  the code indexes the alphabet at 32 and returns \<open>undefined\<close>; \<open>addCheckDigits\<close> then
  appends the text "undefined" to each group. The group \<open>7ABAAAAAAAAAA\<close>, of sum 32,
  fares the same.
\<close>

theorem calculateCheckDigit_undefined:
  "length ''AAAAAAAAAAAAA'' = 13
   \<and> set ''AAAAAAAAAAAAA'' \<subseteq> set alphabet
   \<and> weightedSum ''AAAAAAAAAAAAA'' 1 = 0
   \<and> charAt alphabet ((32 - weightedSum ''AAAAAAAAAAAAA'' 1 mod 32) mod 32) = Some CHR ''A''
   \<and> calculateCheckDigit ''AAAAAAAAAAAAA'' = Inr None
   \<and> set ''7ABAAAAAAAAAA'' \<subseteq> set alphabet
   \<and> weightedSum ''7ABAAAAAAAAAA'' 1 = 32
   \<and> calculateCheckDigit ''7ABAAAAAAAAAA'' = Inr None
   \<and> addCheckDigits (replicate 52 CHR ''A'')
       = Inr (concat (replicate 4 (''AAAAAAAAAAAAA'' @ ''undefined'')))"
proof -
  have a: "set ''AAAAAAAAAAAAA'' \<subseteq> set alphabet" by (simp add: alphabet_def)
  have wa: "weightedSum ''AAAAAAAAAAAAA'' 1 = 0" by (simp add: alphabet_def Let_def)
  have ca: "calculateCheckDigit ''AAAAAAAAAAAAA'' = Inr None"
    using calculateCheckDigit_computes [OF a] unfolding wa by simp
  have b: "set ''7ABAAAAAAAAAA'' \<subseteq> set alphabet" by (simp add: alphabet_def)
  have wb: "weightedSum ''7ABAAAAAAAAAA'' 1 = 32" by (simp add: alphabet_def Let_def)
  have cb: "calculateCheckDigit ''7ABAAAAAAAAAA'' = Inr None"
    using calculateCheckDigit_computes [OF b] unfolding wb by simp
  have ch: "charAt alphabet ((32 - weightedSum ''AAAAAAAAAAAAA'' 1 mod 32) mod 32) = Some CHR ''A''"
    by (simp add: wa charAt_def alphabet_def)
  have r52: "replicate 52 CHR ''A'' = ''AAAAAAAAAAAAA'' @ ''AAAAAAAAAAAAA'' @ ''AAAAAAAAAAAAA'' @ ''AAAAAAAAAAAAA''"
    by (simp add: eval_nat_numeral)
  have r4: "replicate 4 x = [x, x, x, x]" for x :: string
    by (simp add: eval_nat_numeral)
  have ad: "addCheckDigits (replicate 52 CHR ''A'')
       = Inr (concat (replicate 4 (''AAAAAAAAAAAAA'' @ ''undefined'')))"
    by (simp add: addCheckDigits_def ca appendChar_def substr_def r52 r4)
  show ?thesis by (intro conjI a wa ch ca b wb cb ad) simp
qed

section \<open>The request queue: add and received\<close>

lemma queue1_eq: "queue1 = \<lparr>requests =
      [\<lparr>q_active = True, q_retries = 0, q_timeout = Armed 0,
          q_blockRequest =
            \<lparr>br_id = 2, br_fileId = 7, br_folder = ''default'', br_name = ''/a.txt'',
               br_block = \<lparr>b_offset = 0, b_size = 4, b_hash = zeroHash, b_cached = 0\<rparr>\<rparr>,
          q_priority = 1, q_callback = Some 0\<rparr>],
     rq_id = 2, concurrent = 5, rq_timeout = 2000, totalActive = 1, retries = 2,
     sent = [\<lparr>br_id = 2, br_fileId = 7, br_folder = ''default'', br_name = ''/a.txt'',
               br_block = \<lparr>b_offset = 0, b_size = 4, b_hash = zeroHash, b_cached = 0\<rparr>\<rparr>],
     queueChanges = 1, invoked = [], clearedTimeouts = []\<rparr>"
  by (simp add: queue1_def add_def newRequest_def blockRequest1_def user_def enqueue_def process_def
      incrementId_def MAX_SAFE_INTEGER_def Let_def)

lemma addExisting_first:
  "i < length rs \<Longrightarrow> sameBlock (rs ! i) br \<Longrightarrow> \<forall>j<i. \<not> sameBlock (rs ! j) br \<Longrightarrow>
   addExisting rs br p = Some (rs[i := (rs ! i)\<lparr>q_priority := p\<rparr>])"
proof (induction rs arbitrary: i)
  case Nil
  then show ?case by simp
next
  case (Cons r rs)
  show ?case
  proof (cases i)
    case 0
    then show ?thesis using Cons.prems by simp
  next
    case (Suc k)
    have r: "\<not> sameBlock r br" using Cons.prems(3) Suc by auto
    have "\<forall>j<k. \<not> sameBlock (rs ! j) br" using Cons.prems(3) Suc by auto
    then have "addExisting rs br p = Some (rs[k := (rs ! k)\<lparr>q_priority := p\<rparr>])"
      using Cons.IH [of k] Cons.prems Suc by simp
    then show ?thesis using r Suc by simp
  qed
qed

text \<open>
  C7, as amended. When the queue already holds a request for the same (fileId, offset),
  \<open>add\<close> enqueues nothing and changes nothing but the priority of the first such
  request, which becomes the new priority: the source assigns \<open>request.priority = priority\<close>,
  it does not take the maximum.
\<close>

theorem add_existing_sets_priority:
  assumes "i < length (requests st)"
    and "sameBlock (requests st ! i) blockRequest"
    and "\<forall>j<i. \<not> sameBlock (requests st ! j) blockRequest"
  shows "add st blockRequest priority callback
           = st\<lparr>requests := (requests st)[i := (requests st ! i)\<lparr>q_priority := priority\<rparr>]\<rparr>"
  using addExisting_first [OF assms] by (simp add: add_def)

theorem add_existing_sets_priority_witness:
  "sameBlock (requests queue1 ! 0) blockRequest1
   \<and> map q_priority (requests queue1) = [user]
   \<and> map q_priority (requests (add queue1 blockRequest1 background None)) = [background]
   \<and> length (requests (add queue1 blockRequest1 background None)) = length (requests queue1)"
proof -
  have a: "0 < length (requests queue1)" by (simp add: queue1_eq)
  have b: "sameBlock (requests queue1 ! 0) blockRequest1"
    by (simp add: queue1_eq sameBlock_def blockRequest1_def)
  have c: "\<forall>j<0. \<not> sameBlock (requests queue1 ! j) blockRequest1" by simp
  show ?thesis
    using add_existing_sets_priority [OF a b c, of background None] b
    by (simp add: queue1_eq user_def)
qed

text \<open>
  C7 as stated fails: the queued request has priority \<open>user\<close> (1); adding the same block
  at \<open>background\<close> (0) lowers it to 0, not to \<open>max 1 0\<close>.
\<close>

theorem add_priority_counterexample:
  "sameBlock (hd (requests queue1)) blockRequest1
   \<and> q_priority (hd (requests queue1)) = user
   \<and> q_priority (hd (requests (add queue1 blockRequest1 background None)))
        \<noteq> max (q_priority (hd (requests queue1))) background"
  by (simp add: queue1_eq add_def sameBlock_def blockRequest1_def user_def background_def)


lemma processLoop_queued:
  "map queued (fst (processLoop conc i rs s)) = map queued rs"
proof (induction rs arbitrary: i s)
  case Nil
  then show ?case by simp
next
  case (Cons r rs)
  obtain ident active out where s: "s = (ident, active, out)" by (cases s) auto
  show ?case
  proof (cases "q_active r")
    case True
    obtain rest' s' where p: "processLoop conc (Suc i) rs (ident, active, out) = (rest', s')"
      by (cases "processLoop conc (Suc i) rs (ident, active, out)") auto
    have "map queued rest' = map queued rs"
      using Cons.IH [of "Suc i" "(ident, active, out)"] p by simp
    then show ?thesis using True p s by simp
  next
    case False
    let ?br = "(q_blockRequest r)\<lparr>br_id := incrementId ident\<rparr>"
    let ?s1 = "(incrementId ident, active + 1, out @ [?br])"
    let ?r' = "r\<lparr>q_blockRequest := ?br, q_active := True, q_timeout := Armed i\<rparr>"
    have r': "queued ?r' = queued r" by (simp add: queued_def)
    obtain rest' s' where p: "processLoop conc (Suc i) rs ?s1 = (rest', s')"
      by (cases "processLoop conc (Suc i) rs ?s1") auto
    have "map queued rest' = map queued rs"
      using Cons.IH [of "Suc i" ?s1] p by simp
    then show ?thesis using False p s r' by (simp add: Let_def)
  qed
qed

lemma process_queued:
  "mset (map queued (requests (process st))) = mset (map queued (requests st))"
proof (cases "length (requests st) = 0 \<or> totalActive st \<ge> concurrent st")
  case True
  then show ?thesis by (simp add: process_def)
next
  case False
  obtain rs ident active out where
    p: "processLoop (concurrent st) 0 (sort_key q_priority (requests st))
          (rq_id st, totalActive st, sent st) = (rs, ident, active, out)"
    by (metis prod_cases4)
  have "map queued rs = map queued (sort_key q_priority (requests st))"
    using processLoop_queued [of "concurrent st" 0 "sort_key q_priority (requests st)"
        "(rq_id st, totalActive st, sent st)"] p by simp
  then have "mset (map queued rs) = mset (map queued (requests st))"
    by (metis mset_map mset_sort)
  then show ?thesis using False p by (simp add: process_def)
qed

lemma process_invoked: "invoked (process st) = invoked st"
  by (simp add: process_def split: prod.splits)

lemma findActive_Some:
  "findActive rs ident = Some i \<Longrightarrow>
     i < length rs \<and> br_id (q_blockRequest (rs ! i)) = ident \<and> q_active (rs ! i)"
proof (induction rs arbitrary: i)
  case Nil
  then show ?case by simp
next
  case (Cons r rs)
  then show ?case by (cases i) (auto split: if_splits)
qed

lemma mset_remove_nth:
  "i < length xs \<Longrightarrow> mset (take i xs @ drop (Suc i) xs) = mset xs - {#xs ! i#}"
proof (induction xs arbitrary: i)
  case Nil
  then show ?case by simp
next
  case (Cons x xs)
  then show ?case by (cases i) auto
qed

lemma process_clearedTimeouts: "clearedTimeouts (process st) = clearedTimeouts st"
  by (simp add: process_def split: prod.splits)

text \<open>
  What \<open>received\<close> does when it finds an active request with the id, at index \<open>i\<close>: the
  timer of that request is cleared and the request leaves the queue whether or not the
  hash matches (the other entries stay, up to the re-ordering and activation of
  \<open>process\<close>); the block request is returned and the callback called with the bytes
  exactly when SHA-256 of the bytes equals the stored hash; on a mismatch the result is
  \<open>null\<close> and no callback is called.
\<close>

lemma received_dequeues:
  assumes "findActive (requests st) ident = Some i"
  shows "mset (map queued (requests (fst (received sha256 st ident data))))
           = mset (map queued (requests st)) - {#queued (requests st ! i)#}
       \<and> snd (received sha256 st ident data)
           = (if sha256 data = b_hash (br_block (q_blockRequest (requests st ! i)))
              then Some (q_blockRequest (requests st ! i)) else None)
       \<and> invoked (fst (received sha256 st ident data))
           = invoked st @
             (if sha256 data = b_hash (br_block (q_blockRequest (requests st ! i)))
              then (case q_callback (requests st ! i) of
                      Some f \<Rightarrow> [(f, CbData data)] | None \<Rightarrow> [])
              else [])
       \<and> clearedTimeouts (fst (received sha256 st ident data))
           = clearedTimeouts st @ [q_timeout (requests st ! i)]"
proof -
  let ?st0 = "st\<lparr>clearedTimeouts := clearedTimeouts st @ [q_timeout (requests st ! i)]\<rparr>"
  let ?st2 = "(dequeue ?st0 i)\<lparr>totalActive := totalActive (dequeue ?st0 i) - 1\<rparr>"
  have i: "i < length (requests st)" using findActive_Some [OF assms] by simp
  have "mset (map queued (requests ?st2)) = mset (map queued (take i (requests st) @ drop (Suc i) (requests st)))"
    by (simp add: dequeue_def)
  also have "\<dots> = mset (take i (map queued (requests st)) @ drop (Suc i) (map queued (requests st)))"
    by (simp add: take_map drop_map)
  also have "\<dots> = mset (map queued (requests st)) - {#queued (requests st ! i)#}"
    using mset_remove_nth [of i "map queued (requests st)"] i by simp
  finally have q: "mset (map queued (requests (process ?st2)))
      = mset (map queued (requests st)) - {#queued (requests st ! i)#}"
    by (simp only: process_queued)
  have inv: "invoked (process ?st2) = invoked st"
    by (simp add: process_invoked dequeue_def)
  have clr: "clearedTimeouts (process ?st2) = clearedTimeouts st @ [q_timeout (requests st ! i)]"
    by (simp add: process_clearedTimeouts dequeue_def)
  have req: "requests (invoke (process ?st2) cb args) = requests (process ?st2)" for cb args
    by (simp add: invoke_def split: option.splits)
  have clr': "clearedTimeouts (invoke (process ?st2) cb args) = clearedTimeouts (process ?st2)"
    for cb args
    by (simp add: invoke_def split: option.splits)
  show ?thesis
    using q inv req clr clr'
    by (simp add: received_def assms Let_def invoke_def split: option.splits)
qed

text \<open>
  C6. A response whose digest differs from the stored hash finds the active request 2 of
  the queue, whose callback is the one \<open>wait\<close> registered and whose timer is armed.
  \<open>received\<close> returns \<open>null\<close> and leaves the queue empty: the request does not remain
  queued, and its timer has been cleared, so the timeout handler, the only code that
  retries a request, never runs for it. Its callback has not been called, neither with
  the bytes nor with an error (the timeout handler and \<open>remove\<close> call the callback of the
  request they dequeue), so the promise of \<open>wait\<close> is never settled. With the matching
  digest the same call invokes the callback with the bytes and returns the block request.
\<close>

theorem received_mismatch_drops_request:
  "findActive (requests queue1) 2 = Some 0
   \<and> q_callback (requests queue1 ! 0) = Some 0
   \<and> q_timeout (requests queue1 ! 0) = Armed 0
   \<and> emptyDigest \<noteq> b_hash (br_block (q_blockRequest (requests queue1 ! 0)))
   \<and> received (\<lambda>d. emptyDigest) queue1 2 []
        = (queue1\<lparr>requests := [], totalActive := 0, queueChanges := 2,
                   clearedTimeouts := [Armed 0]\<rparr>, None)
   \<and> invoked (fst (received (\<lambda>d. emptyDigest) queue1 2 [])) = []
   \<and> received (\<lambda>d. zeroHash) queue1 2 []
        = (queue1\<lparr>requests := [], totalActive := 0, queueChanges := 2,
                   invoked := [(0, CbData [])], clearedTimeouts := [Armed 0]\<rparr>,
           Some (blockRequest1\<lparr>br_id := 2\<rparr>))"
  by (simp add: queue1_eq emptyDigest_def zeroHash_def blockRequest1_def received_def
      dequeue_def process_def invoke_def Let_def)

section \<open>Relay: the reply to the join session request\<close>

lemma afterJoinSessionReply_response:
  "rm_type reply = Response \<Longrightarrow> rm_message reply = ResponseBody response \<Longrightarrow>
   afterJoinSessionReply reply =
     (if rsp_code response = ResponseNotFound
      then \<lparr>relaySessionSocket = SocketDestroyed, upgradedToTLS = False\<rparr>
      else \<lparr>relaySessionSocket = SocketOpen, upgradedToTLS = True\<rparr>)"
  by (simp add: afterJoinSessionReply_def)

text \<open>
  C5. The claim: every \<open>Response\<close> whose code is not \<open>ResponseSuccess\<close> (3) is fatal, the
  relay session socket is neither upgraded to TLS nor left open. The code only tests for
  \<open>ResponseNotFound\<close> (1): a response with code \<open>ResponseAlreadyConnected\<close> (2) is decoded
  as a response with code 2, the socket is kept open and wrapped in TLS.
\<close>

theorem join_already_connected_upgrades:
  "rm_type (relayProtocolDecodeMessage responseAlreadyConnected) = Response
   \<and> rm_message (relayProtocolDecodeMessage responseAlreadyConnected)
       = ResponseBody \<lparr>rsp_code = ResponseAlreadyConnected, rsp_messageLength = 0, rsp_message = []\<rparr>
   \<and> ResponseAlreadyConnected \<noteq> ResponseSuccess
   \<and> onJoinSessionData responseAlreadyConnected
       = \<lparr>relaySessionSocket = SocketOpen, upgradedToTLS = True\<rparr>"
  by (simp add: onJoinSessionData_def afterJoinSessionReply_def relayProtocolDecodeMessage_def
      decodeResponse_def getUint32_def subarrayN_def relayMagic_def responseAlreadyConnected_def
      Response_def SessionInvitation_def ResponseNotFound_def ResponseAlreadyConnected_def
      ResponseSuccess_def)

section \<open>Decoding an Index: files that precede their directory\<close>

lemma dirname_examples:
  "dirname ''/a/b.txt'' = ''/a''" "dirname ''/a'' = ''/''" "basename ''/a/b.txt'' = ''b.txt''"
  by (simp_all add: dirname_def basename_def isSlash_def)

text \<open>
  C8. The claim: every wire file record appears in the files of the resulting directory
  named by the dirname of its name, also when the file record precedes its directory
  record. With the directory first the file is attached; with the file first, the
  placeholder \<open>/a\<close> holding \<open>b.txt\<close> is overwritten by the directory entry, whose files are
  empty: the file record is in no directory of the result.
\<close>

theorem decodeIndex_drops_file_before_directory:
  "map (\<lambda>d. (d_name d, map f_name (d_files d)))
       (ix_directories (decodeIndex \<lparr>wi_folder = ''default'', wi_files = [wireDirA, wireFileB]\<rparr>))
     = [(''/a'', [''b.txt''])]
   \<and> map (\<lambda>d. (d_name d, map f_name (d_files d)))
       (ix_directories (decodeIndex \<lparr>wi_folder = ''default'', wi_files = [wireFileB, wireDirA]\<rparr>))
     = [(''/a'', [])]"
  by (simp add: decodeIndex_def decodeFile_def wireDirA_def wireFileB_def dirname_def
      basename_def isSlash_def Let_def)

section \<open>attributes: files with flags other than deleted\<close>

lemma splitPath_file: "splitPath ''/default/a.txt'' = \<lparr>sp_folder = ''default'', sp_dir = ''/'', sp_file = ''a.txt''\<rparr>"
  by (simp add: splitPath_def parse_def isSlash_def endsWithSep_def sep_def Let_def)

lemma splitPath_dir: "splitPath ''/default/a.txt/'' = \<lparr>sp_folder = ''default'', sp_dir = ''/a.txt'', sp_file = []\<rparr>"
  by (simp add: splitPath_def parse_def isSlash_def endsWithSep_def sep_def Let_def join_def normalize_def)

text \<open>
  C10. The claim: \<open>attributes\<close> returns the entry of a stored file exactly when the
  deleted bit of its flags is clear, so a file whose flags set only \<open>invalid\<close> is returned.
  The file branch multiplies the flags by \<open>FileFlags.deleted\<close> instead of masking them:
  for the stored file \<open>/default/a.txt\<close> with flags 2 (\<open>invalid\<close> only, deleted bit clear)
  the product is 2, the file branch is skipped, no directory has that path, and the result
  is \<open>null\<close>. The same row with flags 0 is returned.
\<close>

theorem attributes_invalid_file_null:
  "getFileParentName invalidFileStore ''default'' ''/'' ''a.txt'' = Some invalidFileRow
   \<and> fr_flags invalidFileRow = invalid
   \<and> fr_flags invalidFileRow AND deleted = 0
   \<and> attributes now invalidFileStore ''/default/a.txt'' = None
   \<and> attributes now (invalidFileStore\<lparr>files := [invalidFileRow\<lparr>fr_flags := 0\<rparr>]\<rparr>) ''/default/a.txt''
       = Some (fileEntry invalidFileRow)"
  by (simp add: attributes_def splitPath_file splitPath_dir attributesDirectory_def
      getFileParentName_def getDirectoryFolderPath_def invalidFileStore_def invalidFileRow_def
      invalid_def deleted_def endsWithSep_def isSlash_def fileEntry_def sep_def Let_def)

section \<open>updateClusterConfig applied twice\<close>

lemma device_ids_differ: "selfId \<noteq> peerId" "peerId \<noteq> selfId"
  by (simp_all add: selfId_def peerId_def)

lemma updateClusterConfig_first: "updateClusterConfig ''client'' selfId (\<lambda>k. drawnIndexId) emptyStore peerCluster = Committed storeAfterCluster"
  by (simp add: updateClusterConfig_def updateClusterFolder_def updateClusterDevice_def peerCluster_def
      emptyStore_def storeAfterCluster_def getFolder_def getDevice_def addFolder_def addDevice_def device_ids_differ Let_def)

text \<open>
  C9. The claim: applying the same cluster config twice leaves the store after the second
  call identical to the store after the first. On the first call this device's row is
  inserted with a random index id (\<open>addDevice\<close>); on the second call the row differs from
  the config in \<open>indexId\<close>, and \<open>updateDevice\<close> overwrites the stored index id with the
  one the peer sent: the second call updates a device row and the stores differ. This holds
  for the config as the peer sent it and for the object as the first call left it.
\<close>

theorem updateClusterConfig_twice_overwrites_indexId:
  "updateClusterConfig ''client'' selfId (\<lambda>k. drawnIndexId) emptyStore peerCluster
     = Committed storeAfterCluster
   \<and> map dv_indexId (devices storeAfterCluster) = [[0, 0, 0, 0, 0, 0, 0, 9], drawnIndexId]
   \<and> updateClusterConfig ''client'' selfId randomBytes storeAfterCluster
        (clusterAfter ''client'' selfId peerCluster)
     = Committed (storeAfterCluster\<lparr>devices :=
         [devices storeAfterCluster ! 0,
          (devices storeAfterCluster ! 1)\<lparr>dv_indexId := [0, 0, 0, 0, 0, 0, 0, 0]\<rparr>]\<rparr>)
   \<and> updateClusterConfig ''client'' selfId randomBytes storeAfterCluster peerCluster
     = updateClusterConfig ''client'' selfId randomBytes storeAfterCluster
        (clusterAfter ''client'' selfId peerCluster)
   \<and> updateClusterConfig ''client'' selfId randomBytes storeAfterCluster peerCluster
       \<noteq> Committed storeAfterCluster"
proof -
  have second: "updateClusterConfig ''client'' selfId randomBytes storeAfterCluster c
     = Committed (storeAfterCluster\<lparr>devices :=
         [devices storeAfterCluster ! 0,
          (devices storeAfterCluster ! 1)\<lparr>dv_indexId := [0, 0, 0, 0, 0, 0, 0, 0]\<rparr>]\<rparr>)"
    if "c = peerCluster \<or> c = clusterAfter ''client'' selfId peerCluster" for c
    using that
    by (auto simp add: updateClusterConfig_def updateClusterFolder_def updateClusterDevice_def
        peerCluster_def clusterAfter_def storeAfterCluster_def getFolder_def getDevice_def
        updateDevice_def folderEqualsRow_def deviceEqualsRow_def drawnIndexId_def device_ids_differ Let_def)
  have idx: "map dv_indexId (devices storeAfterCluster) = [[0, 0, 0, 0, 0, 0, 0, 9], drawnIndexId]"
    by (simp add: storeAfterCluster_def)
  have ne: "storeAfterCluster\<lparr>devices :=
         [devices storeAfterCluster ! 0,
          (devices storeAfterCluster ! 1)\<lparr>dv_indexId := [0, 0, 0, 0, 0, 0, 0, 0]\<rparr>]\<rparr>
        \<noteq> storeAfterCluster"
    by (simp add: storeAfterCluster_def drawnIndexId_def)
  show ?thesis
    using updateClusterConfig_first idx ne second [of peerCluster]
      second [of "clusterAfter ''client'' selfId peerCluster"]
    by simp
qed

section \<open>read: the value the call resolves to\<close>

lemma subarray_length: "length (subarray d b e) \<le> length d"
proof -
  have "length (take n (drop m d)) \<le> length d" for n m by simp
  then show ?thesis unfolding subarray_def Let_def by blast
qed

lemma typedArraySet_length:
  "typedArraySet target source offset = Some t' \<Longrightarrow> length t' = length target"
  by (auto simp: typedArraySet_def split: if_splits)

lemma readLoop_length:
  "readLoop wait position len blockReads db readData readOffset = (ResolvedBytes out, db') \<Longrightarrow>
   length out \<le> length readData"
proof (induction wait position len blockReads db readData readOffset
    rule: readLoop.induct)
  case (1 wait position len db readData readOffset)
  have "out = subarray readData 0 readOffset"
    using "1.prems" by (simp only: readLoop.simps(1) prod.inject read_result.inject)
  then show ?case using subarray_length [of readData 0 readOffset] by simp
next
  case (2 wait position len blockRequest blockPromise rest db readData readOffset)
  note eq = readLoop.simps(2) [of wait position len blockRequest blockPromise rest db readData
      readOffset]
  show ?case
  proof (cases blockPromise)
    case (Resolved blockData)
    let ?block = "br_block blockRequest"
    note eqR = eq [unfolded Resolved promise.case Let_def]
    note prem = "2.prems" [unfolded Resolved]
    show ?thesis
    proof (cases "b_cached ?block = 1 \<and> length blockData = 0")
      case True
      let ?br = "blockRequest\<lparr>br_block := ?block\<lparr>b_cached := 2\<rparr>\<rparr>"
      have step: "readLoop wait position len ((blockRequest, Resolved blockData) # rest) db readData
            readOffset
          = (case databaseUpdateBlock db ?br of
               Inl e \<Rightarrow> (ResolvedUndefined, db)
             | Inr db1 \<Rightarrow>
                 readLoop wait position len ((?br, wait ?br) # rest) db1 readData readOffset)"
        unfolding eqR using True by (rule if_P)
      obtain db1 where u: "databaseUpdateBlock db ?br = Inr db1"
      proof (cases "databaseUpdateBlock db ?br")
        case (Inl e)
        have False using prem unfolding step Inl
          by (simp only: sum.case prod.inject read_result.distinct simp_thms)
        then show ?thesis ..
      next
        case (Inr db1)
        then show ?thesis by (rule that)
      qed
      have "readLoop wait position len ((?br, wait ?br) # rest) db1 readData readOffset
              = (ResolvedBytes out, db')"
        using prem unfolding step u by (simp only: sum.case)
      then show ?thesis by (rule "2.IH"(1) [OF Resolved refl True refl u])
    next
      case False
      let ?rs = "position - b_offset ?block"
      let ?start = "if ?rs < 0 then 0 else ?rs"
      let ?re = "?rs + len"
      let ?end = "if ?re > b_size ?block then b_size ?block else ?re"
      have step: "readLoop wait position len ((blockRequest, Resolved blockData) # rest) db readData
            readOffset
          = (case typedArraySet readData (subarray blockData ?start ?end) readOffset of
               None \<Rightarrow> (ResolvedUndefined, db)
             | Some rd \<Rightarrow> readLoop wait position len rest db rd (readOffset + (?end - ?start)))"
        unfolding eqR using False by (rule if_not_P)
      obtain rd where s: "typedArraySet readData (subarray blockData ?start ?end) readOffset = Some rd"
      proof (cases "typedArraySet readData (subarray blockData ?start ?end) readOffset")
        case None
        have False using prem unfolding step None
          by (simp only: option.case prod.inject read_result.distinct simp_thms)
        then show ?thesis ..
      next
        case (Some rd)
        then show ?thesis by (rule that)
      qed
      have "readLoop wait position len rest db rd (readOffset + (?end - ?start))
              = (ResolvedBytes out, db')"
        using prem unfolding step s by (simp only: option.case)
      then have "length out \<le> length rd"
        by (rule "2.IH"(2) [OF Resolved refl False refl refl refl refl s])
      then show ?thesis using typedArraySet_length [OF s] by simp
    qed
  next
    case (Rejected err)
    have False using "2.prems" [unfolded Rejected] unfolding eq [unfolded Rejected promise.case]
      by (simp only: prod.inject read_result.distinct simp_thms)
    then show ?thesis ..
  next
    case Pending
    have False using "2.prems" [unfolded Pending] unfolding eq [unfolded Pending promise.case]
      by (simp only: prod.inject read_result.distinct simp_thms)
    then show ?thesis ..
  qed
qed

text \<open>
  The two parts of the claim that hold: a length above 10 MiB gives the empty array, and a
  call that resolves to an array resolves to at most \<open>length\<close> bytes.
\<close>

lemma read_too_long:
  "len > 10485760 \<Longrightarrow> read db readBlock wait path position len = (ResolvedBytes [], db)"
  by (simp add: read_def)

lemma read_length_bound:
  assumes "read db readBlock wait path position len = (ResolvedBytes out, db')"
    and "len \<le> 10485760"
  shows "int (length out) \<le> len"
proof -
  have nn: "0 \<le> len" using assms by (auto simp: read_def Let_def split: if_splits)
  have loop: "readLoop wait position len
       (map (\<lambda>blockRequest.
                (blockRequest,
                 if b_cached (br_block blockRequest) = 1
                 then readBlock blockRequest else wait blockRequest))
         (blocksToSatisfyRead db path position len))
       db (replicate (nat len) 0) 0 = (ResolvedBytes out, db')"
    using assms nn by (simp add: read_def Let_def split: if_splits)
  have "length out \<le> length (replicate (nat len) (0 :: 8 word))"
    by (rule readLoop_length [OF loop])
  then show ?thesis using nn by simp
qed

lemma splitPath_ab:
  "splitPath ''/default/a/b.txt'' = \<lparr>sp_folder = ''default'', sp_dir = ''/a'', sp_file = ''b.txt''\<rparr>"
  by (simp add: splitPath_def parse_def isSlash_def endsWithSep_def sep_def join_def normalize_def Let_def)

lemma plan_ab: "blocksToSatisfyRead storeDirAndFile ''/default/a/b.txt'' 0 4 = [requestB]"
  by (simp add: blocksToSatisfyRead_def splitPath_ab getBlocksOffset_def storeDirAndFile_def
      storeAfterCluster_def updateSequence_def rootRow_def rowA_def rowB_def blockRowB_def
      requestB_def join_def normalize_def isSlash_def Let_def)

lemma replicate4: "replicate (nat 4) (0 :: 8 word) = [0, 0, 0, 0]"
  by (simp add: eval_nat_numeral)

text \<open>
  C1. The claim: \<open>read\<close> never resolves to a value that is not a byte array. The file
  \<open>/default/a/b.txt\<close> has one block, not cached, so \<open>read\<close> waits for it from the peer.
  When that request is rejected (its timeout after the retries), the \<open>catch\<close> of \<open>read\<close>
  evaluates \<open>new Uint8Array(0)\<close> without returning it, and the call resolves to
  \<open>undefined\<close>. When the request resolves with the four bytes, so does \<open>read\<close>.
\<close>

theorem read_timeout_resolves_undefined:
  "blocksToSatisfyRead storeDirAndFile ''/default/a/b.txt'' 0 4 = [requestB]
   \<and> read storeDirAndFile readBlock (\<lambda>blockRequest. Rejected ''timeout'') ''/default/a/b.txt'' 0 4
       = (ResolvedUndefined, storeDirAndFile)
   \<and> read storeDirAndFile readBlock (\<lambda>blockRequest. Resolved [1, 2, 3, 4]) ''/default/a/b.txt'' 0 4
       = (ResolvedBytes [1, 2, 3, 4], storeDirAndFile)"
proof (intro conjI)
  show "blocksToSatisfyRead storeDirAndFile ''/default/a/b.txt'' 0 4 = [requestB]"
    by (rule plan_ab)
  show "read storeDirAndFile readBlock (\<lambda>blockRequest. Rejected ''timeout'') ''/default/a/b.txt'' 0 4
       = (ResolvedUndefined, storeDirAndFile)"
    by (simp add: read_def plan_ab requestB_def)
  show "read storeDirAndFile readBlock (\<lambda>blockRequest. Resolved [1, 2, 3, 4]) ''/default/a/b.txt'' 0 4
       = (ResolvedBytes [1, 2, 3, 4], storeDirAndFile)"
    by (simp add: read_def plan_ab requestB_def replicate4 typedArraySet_def subarray_def Let_def)
qed

section \<open>updateIndex: the value returned and the sequence written back\<close>

lemma foldE_invariant:
  assumes "\<And>s x s'. P s \<Longrightarrow> f s x = Inr s' \<Longrightarrow> P s'"
    and "P s" and "foldE f xs s = Inr s'"
  shows "P s'"
  using assms(2,3)
proof (induction xs arbitrary: s)
  case Nil
  then show ?case by simp
next
  case (Cons x xs)
  then show ?case using assms(1) by (auto split: sum.splits)
qed

lemma updateBlock_sameCatalog: "updateBlock db b fileId off = Inr db' \<Longrightarrow> sameCatalog db db'"
  by (auto simp: updateBlock_def sameCatalog_def split: if_splits)

lemma addBlock_sameCatalog: "addBlock db b fileId = Inr db' \<Longrightarrow> sameCatalog db db'"
  by (auto simp: addBlock_def sameCatalog_def split: if_splits)

lemma deleteBlock_sameCatalog: "sameCatalog db (deleteBlock db fileId off)"
  by (simp add: deleteBlock_def sameCatalog_def)

lemma sameCatalog_trans: "sameCatalog a b \<Longrightarrow> sameCatalog b c \<Longrightarrow> sameCatalog a c"
  by (simp add: sameCatalog_def)

lemma assignedSequences_append:
  "assignedSequences (xs @ ys) = assignedSequences xs @ assignedSequences ys"
  by (simp add: assignedSequences_def)

lemma updateBlocksLoop_written:
  "updateBlocksLoop fileId bs rows (db, u, w) = Inr (db', u', w') \<Longrightarrow>
   \<exists>w2. w' = w @ w2 \<and> u' = (u \<or> list_ex triggers w2) \<and> assignedSequences w2 = []
        \<and> sameCatalog db db'"
proof (induction fileId bs rows "(db, u, w)" arbitrary: db u w rule: updateBlocksLoop.induct)
  case (1 fileId)
  then show ?case by (simp add: assignedSequences_def sameCatalog_def)
next
  case (2 fileId block bs row rows db updated written)
  show ?case
  proof (cases "blockEqualsRow block row")
    case True
    then show ?thesis using 2 by simp
  next
    case False
    let ?b = "if bl_cached row = 1 then block\<lparr>b_cached := 2\<rparr> else block"
    obtain db1 where u: "updateBlock db ?b fileId (bl_offset row) = Inr db1"
      using "2.prems" False by (auto simp: Let_def split: sum.splits)
    have rec: "updateBlocksLoop fileId bs rows
                 (db1, True, written @ [BlockUpdated row (toBlockRow ?b fileId)]) = Inr (db', u', w')"
      using "2.prems" False u by (simp add: Let_def)
    obtain w2 where w2: "w' = (written @ [BlockUpdated row (toBlockRow ?b fileId)]) @ w2"
      "u' = (True \<or> list_ex triggers w2)" "assignedSequences w2 = []" "sameCatalog db1 db'"
      using "2.hyps"(1) [OF False refl u rec] by blast
    have "sameCatalog db db'"
      using sameCatalog_trans [OF updateBlock_sameCatalog [OF u] w2(4)] .
    then show ?thesis using w2
      by (intro exI [of _ "BlockUpdated row (toBlockRow ?b fileId) # w2"])
        (simp add: assignedSequences_def)
  qed
next
  case (3 fileId block bs db updated written)
  let ?b = "block\<lparr>b_cached := 0\<rparr>"
  obtain db1 where u: "addBlock db ?b fileId = Inr db1"
    using "3.prems" by (auto simp: Let_def split: sum.splits)
  have rec: "updateBlocksLoop fileId bs []
               (db1, True, written @ [BlockInserted (toBlockRow ?b fileId)]) = Inr (db', u', w')"
    using "3.prems" u by (simp add: Let_def)
  obtain w2 where w2: "w' = (written @ [BlockInserted (toBlockRow ?b fileId)]) @ w2"
    "u' = (True \<or> list_ex triggers w2)" "assignedSequences w2 = []" "sameCatalog db1 db'"
    using "3.hyps" [OF refl u rec] by blast
  have "sameCatalog db db'"
    using sameCatalog_trans [OF addBlock_sameCatalog [OF u] w2(4)] .
  then show ?case using w2
    by (intro exI [of _ "BlockInserted (toBlockRow ?b fileId) # w2"])
      (simp add: assignedSequences_def)
next
  case (4 fileId row rows db updated written)
  show ?case
  proof (cases "bl_cached row \<noteq> 0")
    case True
    let ?r = "row\<lparr>bl_size := 0, bl_cached := 2\<rparr>"
    let ?b = "\<lparr>b_offset = bl_offset ?r, b_size = bl_size ?r, b_hash = bl_hash ?r,
               b_cached = bl_cached ?r\<rparr>"
    obtain db1 where u: "updateBlock db ?b fileId (bl_offset row) = Inr db1"
      using "4.prems" True by (auto simp: Let_def split: sum.splits)
    have rec: "updateBlocksLoop fileId [] rows
                 (db1, True, written @ [BlockUpdated row (toBlockRow ?b fileId)]) = Inr (db', u', w')"
      using "4.prems" True u by (simp add: Let_def)
    obtain w2 where w2: "w' = (written @ [BlockUpdated row (toBlockRow ?b fileId)]) @ w2"
      "u' = (True \<or> list_ex triggers w2)" "assignedSequences w2 = []" "sameCatalog db1 db'"
      using "4.hyps"(1) [OF True refl refl u rec] by blast
    have "sameCatalog db db'"
      using sameCatalog_trans [OF updateBlock_sameCatalog [OF u] w2(4)] .
    then show ?thesis using w2
      by (intro exI [of _ "BlockUpdated row (toBlockRow ?b fileId) # w2"])
        (simp add: assignedSequences_def)
  next
    case False
    have rec: "updateBlocksLoop fileId [] rows
                 (deleteBlock db fileId (bl_offset row), updated, written @ [BlockDeleted row])
               = Inr (db', u', w')"
      using "4.prems" False by simp
    obtain w2 where w2: "w' = (written @ [BlockDeleted row]) @ w2"
      "u' = (updated \<or> list_ex triggers w2)" "assignedSequences w2 = []"
      "sameCatalog (deleteBlock db fileId (bl_offset row)) db'"
      using "4.hyps"(2) [OF _ rec] False by blast
    have "sameCatalog db db'"
      using sameCatalog_trans [OF deleteBlock_sameCatalog w2(4)] .
    then show ?thesis using w2
      by (intro exI [of _ "BlockDeleted row # w2"]) (simp add: assignedSequences_def)
  qed
qed

lemma list_all_less_mono:
  "list_all (\<lambda>s. s < (n::int)) xs \<Longrightarrow> n \<le> m \<Longrightarrow> list_all (\<lambda>s. s < m) xs"
  by (induction xs) auto

lemma list_all_old_or_less_mono:
  "list_all (\<lambda>r. r \<in> A \<or> f r < (n::int)) xs \<Longrightarrow> n \<le> m \<Longrightarrow>
   list_all (\<lambda>r. r \<in> A \<or> f r < m) xs"
  by (induction xs) auto

lemma list_all_step:
  "list_all (\<lambda>r. r \<in> A \<or> f r < (m::int)) xs \<Longrightarrow>
   list_all (\<lambda>r. r \<in> set xs \<or> f r < m) ys \<Longrightarrow>
   list_all (\<lambda>r. r \<in> A \<or> f r < m) ys"
  by (auto simp: list_all_iff)

text \<open>What the entry step of a file and of a directory writes, in terms of \<open>updateEntry\<close>.\<close>

lemma addFile_rows:
  "addFile db f d = Inr (db', i) \<Longrightarrow>
   devices db' = devices db \<and> directories db' = directories db
   \<and> lastDirectoryId db' = lastDirectoryId db
   \<and> files db' = files db @ [toFileRow f d i]"
  by (auto simp: addFile_def Let_def split: if_splits)

lemma updateFile_rows:
  "updateFile db f d i = Inr db' \<Longrightarrow>
   devices db' = devices db \<and> directories db' = directories db
   \<and> lastDirectoryId db' = lastDirectoryId db
   \<and> list_all (\<lambda>r. r \<in> set (files db) \<or> r = toFileRow f d i) (files db')"
  by (auto simp: updateFile_def list_all_iff split: if_splits)

lemma addDirectory_rows:
  "addDirectory db d f = Inr (db', i) \<Longrightarrow>
   devices db' = devices db \<and> files db' = files db
   \<and> directories db' = directories db @ [toDirectoryRow d f i]"
  by (auto simp: addDirectory_def Let_def split: if_splits)

lemma updateDirectory_rows:
  "updateDirectory db d f i = Inr db' \<Longrightarrow>
   devices db' = devices db \<and> files db' = files db
   \<and> list_all (\<lambda>r. r \<in> set (directories db) \<or> r = toDirectoryRow d f i) (directories db')"
  by (auto simp: updateDirectory_def list_all_iff split: if_splits)


lemma updateIndexFile_inv:
  assumes inv: "txInv db0 tx" and step: "updateIndexFile directoryId sync tx file0 = Inr tx'"
  shows "txInv db0 tx'"
proof -
  let ?row = "getFile (tx_db tx) directoryId (f_name file0)"
  obtain entry er where ue: "updateEntryFile file0 ?row sync (tx_sequence tx) = (entry, er)"
    by (cases "updateEntryFile file0 ?row sync (tx_sequence tx)") auto
  show ?thesis
  proof (cases "er_valid er")
    case False
    then have "tx' = tx" using step ue by (simp add: updateIndexFile_def Let_def)
    then show ?thesis using inv by simp
  next
    case True
    have seq: "tx_sequence tx \<le> er_sequence er"
      using ue by (auto simp: updateEntryFile_def split: option.splits if_splits)
    obtain db1 fileId w where
      ent: "(if er_add er
             then (case addFile (tx_db tx) entry directoryId of
                     Inl e \<Rightarrow> Inl e
                   | Inr (db', fileId) \<Rightarrow>
                       Inr (db', fileId, [FileInserted (toFileRow entry directoryId fileId)]))
             else (case ?row of
                     None \<Rightarrow> Inl TypeError
                   | Some row \<Rightarrow>
                       (if er_update er
                        then (case updateFile (tx_db tx) entry directoryId (fr_id row) of
                                Inl e \<Rightarrow> Inl e
                              | Inr db' \<Rightarrow>
                                  Inr (db', fr_id row,
                                       [FileUpdated row (toFileRow entry directoryId (fr_id row))]))
                        else Inr (tx_db tx, fr_id row, [])))) = Inr (db1, fileId, w)"
      using step ue True
      by (simp add: updateIndexFile_def Let_def split: sum.splits prod.splits)
    have w: "er_updated er = list_ex triggers w
             \<and> list_all (\<lambda>s. s < er_sequence er) (assignedSequences w)
             \<and> devices db1 = devices (tx_db tx) \<and> directories db1 = directories (tx_db tx)
             \<and> list_all (\<lambda>r. r \<in> set (files (tx_db tx)) \<or> fr_sequence r < er_sequence er)
                  (files db1)"
      using ent ue
      by (auto simp: updateEntryFile_def toFileRow_def assignedSequences_def list_all_iff
          dest!: addFile_rows updateFile_rows
          split: option.splits if_splits sum.splits prod.splits; force)
    obtain db2 bu written where
      ub: "updateBlocks db1 fileId (f_blocks entry) (tx_written tx @ w) = Inr (db2, bu, written)"
      and tx': "tx' = \<lparr>tx_db = db2, tx_updated = ((tx_updated tx \<or> er_updated er) \<or> bu),
                       tx_sequence = er_sequence er, tx_written = written\<rparr>"
      using step ue True ent
      by (simp add: updateIndexFile_def Let_def split: sum.splits prod.splits)
    obtain w2 where w2: "written = (tx_written tx @ w) @ w2" "bu = (False \<or> list_ex triggers w2)"
      "assignedSequences w2 = []" "sameCatalog db1 db2"
      using updateBlocksLoop_written [OF ub [unfolded updateBlocks_def]] by blast
    have old: "list_all (\<lambda>s. s < er_sequence er) (assignedSequences (tx_written tx))"
      using inv seq list_all_less_mono by (auto simp: txInv_def)
    have dirs: "list_all (\<lambda>r. r \<in> set (directories db0) \<or> dr_sequence r < er_sequence er)
                  (directories db2)"
      using inv seq w w2(4) list_all_old_or_less_mono [of "set (directories db0)" dr_sequence]
      by (auto simp: txInv_def sameCatalog_def)
    have fls0: "list_all (\<lambda>r. r \<in> set (files db0) \<or> fr_sequence r < er_sequence er)
                  (files (tx_db tx))"
      using inv seq list_all_old_or_less_mono [of "set (files db0)" fr_sequence]
      by (auto simp: txInv_def)
    have fls: "list_all (\<lambda>r. r \<in> set (files db0) \<or> fr_sequence r < er_sequence er) (files db2)"
      using list_all_step [OF fls0, of "files db1"] w w2(4) by (simp add: sameCatalog_def)
    have dev: "devices db2 = devices db0"
      using inv w w2(4) by (simp add: txInv_def sameCatalog_def)
    show ?thesis
      using inv w w2 old dirs fls dev
      by (auto simp: txInv_def tx' assignedSequences_append)
  qed
qed

lemma updateIndexDirectory_inv:
  assumes inv: "txInv db0 tx" and step: "updateIndexDirectory folderId tx directory0 = Inr tx'"
  shows "txInv db0 tx'"
proof -
  let ?sync = "parentSyncOf (tx_db tx) folderId (d_name directory0)"
  let ?row = "getDirectory (tx_db tx) folderId (d_name directory0)"
  obtain entry er where ue: "updateEntryDirectory directory0 ?row ?sync (tx_sequence tx) = (entry, er)"
    by (cases "updateEntryDirectory directory0 ?row ?sync (tx_sequence tx)") auto
  show ?thesis
  proof (cases "er_valid er")
    case False
    then have "tx' = tx" using step ue by (simp add: updateIndexDirectory_def Let_def)
    then show ?thesis using inv by simp
  next
    case True
    have seq: "tx_sequence tx \<le> er_sequence er"
      using ue by (auto simp: updateEntryDirectory_def split: option.splits if_splits)
    obtain db1 directoryId w where
      ent: "(if er_add er
             then (case addDirectory (tx_db tx) entry folderId of
                     Inl e \<Rightarrow> Inl e
                   | Inr (db', directoryId) \<Rightarrow>
                       Inr (db', directoryId,
                            [DirectoryInserted (toDirectoryRow entry folderId directoryId)]))
             else (case ?row of
                     None \<Rightarrow> Inl TypeError
                   | Some row \<Rightarrow>
                       (if er_update er
                        then (case updateDirectory (tx_db tx) entry folderId (dr_id row) of
                                Inl e \<Rightarrow> Inl e
                              | Inr db' \<Rightarrow>
                                  Inr (db', dr_id row,
                                       [DirectoryUpdated row (toDirectoryRow entry folderId (dr_id row))]))
                        else Inr (tx_db tx, dr_id row, [])))) = Inr (db1, directoryId, w)"
      and files: "foldE (updateIndexFile directoryId ?sync) (d_files entry)
                    \<lparr>tx_db = db1, tx_updated = (tx_updated tx \<or> er_updated er),
                     tx_sequence = er_sequence er, tx_written = tx_written tx @ w\<rparr> = Inr tx'"
      using step ue True
      by (simp add: updateIndexDirectory_def Let_def split: sum.splits prod.splits)
    have w: "er_updated er = list_ex triggers w
             \<and> list_all (\<lambda>s. s < er_sequence er) (assignedSequences w)
             \<and> devices db1 = devices (tx_db tx) \<and> files db1 = files (tx_db tx)
             \<and> list_all (\<lambda>r. r \<in> set (directories (tx_db tx)) \<or> dr_sequence r < er_sequence er)
                  (directories db1)"
      using ent ue
      by (auto simp: updateEntryDirectory_def toDirectoryRow_def assignedSequences_def list_all_iff
          dest!: addDirectory_rows updateDirectory_rows
          split: option.splits if_splits sum.splits prod.splits; force)
    have old: "list_all (\<lambda>s. s < er_sequence er) (assignedSequences (tx_written tx))"
      using inv seq list_all_less_mono by (auto simp: txInv_def)
    have fls: "list_all (\<lambda>r. r \<in> set (files db0) \<or> fr_sequence r < er_sequence er) (files db1)"
      using inv seq w list_all_old_or_less_mono [of "set (files db0)" fr_sequence]
      by (auto simp: txInv_def)
    have dirs0: "list_all (\<lambda>r. r \<in> set (directories db0) \<or> dr_sequence r < er_sequence er)
                  (directories (tx_db tx))"
      using inv seq list_all_old_or_less_mono [of "set (directories db0)" dr_sequence]
      by (auto simp: txInv_def)
    have dirs: "list_all (\<lambda>r. r \<in> set (directories db0) \<or> dr_sequence r < er_sequence er)
                  (directories db1)"
      using list_all_step [OF dirs0, of "directories db1"] w by simp
    have mid: "txInv db0 \<lparr>tx_db = db1, tx_updated = (tx_updated tx \<or> er_updated er),
                          tx_sequence = er_sequence er, tx_written = tx_written tx @ w\<rparr>"
      using inv w old fls dirs by (auto simp: txInv_def assignedSequences_append)
    show ?thesis
      by (rule foldE_invariant [where P = "txInv db0", OF _ mid files])
        (rule updateIndexFile_inv)
  qed
qed

lemma ensureRootDirectory_inv:
  assumes "ensureRootDirectory db folderId sequence = Inr tx0"
  shows "txInv db tx0"
  using assms
  by (auto simp: ensureRootDirectory_def txInv_def assignedSequences_def toDirectoryRow_def
      rootDirectory_def full_def list_all_iff dest!: addDirectory_rows
      split: option.splits sum.splits)

lemma find_map_update:
  assumes "find P xs = Some x" and "\<And>y. P y \<Longrightarrow> P (g y)"
  shows "find P (map (\<lambda>r. if P r then g r else r) xs) = Some (g x)"
  using assms(1)
proof (induction xs)
  case Nil
  then show ?case by simp
next
  case (Cons a xs)
  then show ?case using assms(2) by (auto split: if_splits)
qed

lemma getDevice_updateSequence:
  assumes "getDevice db folderId deviceId = Some row"
  shows "getDevice (updateSequence db deviceId folderId s) folderId deviceId
           = Some (row\<lparr>dv_maxSequenceInternal := s, dv_folderId := folderId\<rparr>)"
  using find_map_update [where P = "\<lambda>r. dv_id r = deviceId \<and> dv_folderId r = folderId"
      and g = "\<lambda>r. r\<lparr>dv_maxSequenceInternal := s, dv_folderId := folderId\<rparr>"
      and xs = "devices db" and x = row] assms
  by (simp add: getDevice_def updateSequence_def)

lemma updateIndex_committed:
  assumes "updateIndex deviceId db index = (Committed db', updated, written)"
  obtains folderRow deviceRow tx where
    "getFolder db (ix_folder index) = Some folderRow"
    "getDevice db (fo_id folderRow) deviceId = Some deviceRow"
    "txInv db tx"
    "updated = tx_updated tx" "written = tx_written tx"
    "db' = (if tx_updated tx
            then updateSequence (tx_db tx) deviceId (fo_id folderRow) (tx_sequence tx)
            else tx_db tx)"
proof -
  obtain folderRow where f: "getFolder db (ix_folder index) = Some folderRow"
    using assms by (auto simp: updateIndex_def split: option.splits)
  obtain deviceRow where d: "getDevice db (fo_id folderRow) deviceId = Some deviceRow"
    using assms f by (auto simp: updateIndex_def split: option.splits)
  obtain tx0 where r: "ensureRootDirectory db (fo_id folderRow) (dv_maxSequenceInternal deviceRow) = Inr tx0"
    using assms f d by (auto simp: updateIndex_def split: sum.splits)
  obtain tx where l: "foldE (updateIndexDirectory (fo_id folderRow)) (ix_directories index) tx0 = Inr tx"
    using assms f d r by (auto simp: updateIndex_def split: sum.splits)
  have inv: "txInv db tx"
    by (rule foldE_invariant [where P = "txInv db", OF _ ensureRootDirectory_inv [OF r] l])
      (rule updateIndexDirectory_inv)
  have res: "updated = tx_updated tx" "written = tx_written tx"
    "db' = (if tx_updated tx
            then updateSequence (tx_db tx) deviceId (fo_id folderRow) (tx_sequence tx)
            else tx_db tx)"
    using assms f d r l by (auto simp: updateIndex_def)
  show ?thesis
    by (rule that [OF f d inv res])
qed

subsection \<open>The rows written are the changes of the store\<close>






















lemma indexOf_first: "c \<notin> set xs \<Longrightarrow> indexOf (xs @ c # ys) c = int (length xs)"
  by (induction xs) (auto simp: Let_def)

lemma lastIndexOf_split:
  assumes "c \<notin> set b"
  shows "lastIndexOf (p @ c # b) c = int (length p)"
proof -
  have "indexOf (rev (p @ c # b)) c = int (length b)"
    using indexOf_first [of c "rev b" "rev p"] assms by simp
  then show ?thesis by (simp add: lastIndexOf_def Let_def)
qed

text \<open>
  The parent directory of a name is the name up to its last \<open>/\<close>: a directory \<open>p/b\<close> takes
  the sync of the stored row of \<open>p\<close>, 0 when \<open>p\<close> has no row; a directory \<open>/b\<close> directly
  below the root has no parent for the code and takes 0, whatever the sync of the row \<open>/\<close>.
\<close>

lemma parentSyncOf_split:
  assumes "CHR ''/'' \<notin> set b" and "p \<noteq> []"
  shows "parentSyncOf db f (p @ CHR ''/'' # b)
           = (case getDirectory db f p of None \<Rightarrow> 0 | Some row \<Rightarrow> dr_sync row)"
  using assms by (simp add: parentSyncOf_def lastIndexOf_split)

lemma parentSyncOf_top:
  assumes "CHR ''/'' \<notin> set b"
  shows "parentSyncOf db f (CHR ''/'' # b) = 0"
  using lastIndexOf_split [OF assms, of "[]"] by (simp add: parentSyncOf_def)














text \<open>
  After a committed \<open>updateIndex\<close> that returns true, the stored \<open>maxSequenceInternal\<close>
  of this device for the folder is greater than every sequence assigned to a directory or
  file row inserted or updated in the transaction: than the sequence of every row written,
  and of every directory and file row of the database that was not there before. After one
  that returns false the device row is as it was (the counter is not written back). The
  counter is an integer here; the source's \<open>sequence++\<close> is exact below \<open>2^53\<close>.
\<close>

lemma updateIndex_sequence_written_back:
  assumes "updateIndex deviceId db index = (Committed db', updated, written)"
    and "getFolder db (ix_folder index) = Some folderRow"
  shows "\<exists>deviceRow. getDevice db' (fo_id folderRow) deviceId = Some deviceRow
           \<and> (if updated
               then list_all (\<lambda>s. s < dv_maxSequenceInternal deviceRow) (assignedSequences written)
                    \<and> list_all (\<lambda>r. r \<in> set (directories db)
                                      \<or> dr_sequence r < dv_maxSequenceInternal deviceRow)
                         (directories db')
                    \<and> list_all (\<lambda>r. r \<in> set (files db)
                                      \<or> fr_sequence r < dv_maxSequenceInternal deviceRow)
                         (files db')
               else getDevice db (fo_id folderRow) deviceId = Some deviceRow)"
proof -
  obtain folderRow' deviceRow tx where
    f: "getFolder db (ix_folder index) = Some folderRow'"
    and d: "getDevice db (fo_id folderRow') deviceId = Some deviceRow"
    and inv: "txInv db tx"
    and u: "updated = tx_updated tx" and w: "written = tx_written tx"
    and db': "db' = (if tx_updated tx
            then updateSequence (tx_db tx) deviceId (fo_id folderRow') (tx_sequence tx)
            else tx_db tx)"
    using updateIndex_committed [OF assms(1)] by blast
  have ff: "folderRow' = folderRow" using f assms(2) by simp
  have d1: "getDevice (tx_db tx) (fo_id folderRow) deviceId = Some deviceRow"
    using d inv ff by (simp add: getDevice_def txInv_def)
  show ?thesis
  proof (cases updated)
    case True
    have g: "getDevice db' (fo_id folderRow) deviceId
            = Some (deviceRow\<lparr>dv_maxSequenceInternal := tx_sequence tx, dv_folderId := fo_id folderRow\<rparr>)"
      using getDevice_updateSequence [OF d1] db' True u ff by simp
    have rows: "directories db' = directories (tx_db tx)" "files db' = files (tx_db tx)"
      using db' by (simp_all add: updateSequence_def)
    show ?thesis using True inv w g rows by (simp add: txInv_def)
  next
    case False
    then show ?thesis using d d1 db' u ff by simp
  qed
qed

text \<open>The two example messages, decoded, and what \<open>updateIndex\<close> makes of them.\<close>

lemma indexDirOnly_eq:
  "indexDirOnly =
     \<lparr>ix_folder = ''default'',
      ix_directories =
        [\<lparr>d_name = ''/a'', d_permissions = 493, d_modifiedS = 1, d_modifiedNs = 0,
          d_modifiedBy = [0, 0, 0, 0, 0, 0, 0, 0], d_flags = 0, d_sequence = 1,
          d_version = ''{}'', d_sync = 0, d_files = []\<rparr>]\<rparr>"
  by (simp add: indexDirOnly_def decodeIndex_def decodeFile_def wireDirA_def toBytesBE_def
      combineFlags_def none_def Let_def)

lemma indexDirAndFile_eq:
  "indexDirAndFile =
     \<lparr>ix_folder = ''default'',
      ix_directories =
        [\<lparr>d_name = ''/a'', d_permissions = 493, d_modifiedS = 1, d_modifiedNs = 0,
          d_modifiedBy = [0, 0, 0, 0, 0, 0, 0, 0], d_flags = 0, d_sequence = 1,
          d_version = ''{}'', d_sync = 0,
          d_files =
            [\<lparr>f_name = ''b.txt'', f_size = 4, f_permissions = 420, f_modifiedS = 1,
              f_modifiedNs = 0, f_modifiedBy = [0, 0, 0, 0, 0, 0, 0, 0], f_flags = 0,
              f_sequence = 2, f_blockSize = 131072, f_version = ''{}'', f_symlinkTarget = [],
              f_sync = 0,
              f_blocks = [\<lparr>b_offset = 0, b_size = 4, b_hash = zeroHash, b_cached = 0\<rparr>]\<rparr>]\<rparr>]\<rparr>"
  by (simp add: indexDirAndFile_def decodeIndex_def decodeFile_def wireDirA_def wireFileB_def
      toBytesBE_def combineFlags_def none_def decodeBlock_def dirname_def basename_def
      isSlash_def Let_def)

lemma parentSync_a: "parentSyncOf db 1 ''/a'' = 0"
  by (simp add: parentSyncOf_def lastIndexOf_def Let_def)

lemma updateIndex_dirOnly:
  "updateIndex selfId storeAfterCluster indexDirOnly
     = (Committed storeDirOnly, False, [DirectoryInserted rootRow, DirectoryInserted rowA])"
  by (simp add: indexDirOnly_eq updateIndex_def ensureRootDirectory_def updateIndexDirectory_def
      updateEntryDirectory_def parentSync_a getFolder_def getDevice_def getDirectory_def
      addDirectory_def toDirectoryRow_def rootDirectory_def storeAfterCluster_def
      storeDirOnly_def rootRow_def rowA_def device_ids_differ deleted_def full_def Let_def)

lemma updateIndex_dirAndFile:
  "updateIndex selfId storeAfterCluster indexDirAndFile
     = (Committed storeDirAndFile, True,
        [DirectoryInserted rootRow, DirectoryInserted rowA, FileInserted rowB,
         BlockInserted blockRowB])"
  by (simp add: indexDirAndFile_eq updateIndex_def ensureRootDirectory_def
      updateIndexDirectory_def updateIndexFile_def updateEntryDirectory_def updateEntryFile_def
      updateBlocks_def getBlocks_def addBlock_def toBlockRow_def
      parentSync_a getFolder_def getDevice_def getDirectory_def getFile_def
      addDirectory_def addFile_def toDirectoryRow_def toFileRow_def rootDirectory_def
      updateSequence_def storeAfterCluster_def
      storeDirAndFile_def rootRow_def rowA_def rowB_def blockRowB_def device_ids_differ
      deleted_def full_def Let_def)

lemma indexDirC_eq:
  "indexDirC =
     \<lparr>ix_folder = ''default'',
      ix_directories =
        [\<lparr>d_name = ''/a/c'', d_permissions = 493, d_modifiedS = 2, d_modifiedNs = 0,
          d_modifiedBy = [0, 0, 0, 0, 0, 0, 0, 0], d_flags = 0, d_sequence = 3,
          d_version = ''{}'', d_sync = 0,
          d_files =
            [\<lparr>f_name = ''d.txt'', f_size = 0, f_permissions = 420, f_modifiedS = 2,
              f_modifiedNs = 0, f_modifiedBy = [0, 0, 0, 0, 0, 0, 0, 0], f_flags = 0,
              f_sequence = 4, f_blockSize = 131072, f_version = ''{}'', f_symlinkTarget = [],
              f_sync = 0, f_blocks = []\<rparr>]\<rparr>]\<rparr>"
  by (simp add: indexDirC_def decodeIndex_def decodeFile_def wireDirC_def wireFileD_def
      toBytesBE_def combineFlags_def none_def decodeBlock_def dirname_def basename_def
      isSlash_def Let_def)

lemma lastIndexOf_ac: "lastIndexOf ''/a/c'' CHR ''/'' = 2"
  by (simp add: lastIndexOf_def Let_def)

lemma parentSync_ac:
  "parentSyncOf db 1 ''/a/c''
     = (case getDirectory db 1 ''/a'' of None \<Rightarrow> 0 | Some p \<Rightarrow> dr_sync p)"
  by (simp add: parentSyncOf_def lastIndexOf_ac)

lemma updateIndex_dirC_none:
  "updateIndex selfId storeDirOnly indexDirC
     = (Committed storeDirC, False, [DirectoryInserted rowC, FileInserted rowD])"
  by (simp add: indexDirC_eq updateIndex_def ensureRootDirectory_def
      updateIndexDirectory_def updateIndexFile_def updateEntryDirectory_def updateEntryFile_def
      updateBlocks_def getBlocks_def
      parentSync_ac getFolder_def getDevice_def getDirectory_def getFile_def
      addDirectory_def addFile_def toDirectoryRow_def toFileRow_def
      storeAfterCluster_def storeDirOnly_def storeDirC_def
      rootRow_def rowA_def rowC_def rowD_def device_ids_differ
      deleted_def full_def Let_def)


lemma updateIndex_file_full:
  "updateIndex selfId storeFileFull indexDirAndFile
     = (Committed storeFileReset, True,
        [FileUpdated (rowB\<lparr>fr_sync := full\<rparr>) (rowB\<lparr>fr_sequence := 3\<rparr>)])"
  by (simp add: indexDirAndFile_eq updateIndex_def ensureRootDirectory_def
      updateIndexDirectory_def updateIndexFile_def updateEntryDirectory_def updateEntryFile_def
      updateBlocks_def getBlocks_def blockEqualsRow_def directoryEqualsRow_def fileEqualsRow_def
      updateFile_def
      parentSync_a getFolder_def getDevice_def getDirectory_def getFile_def
      toDirectoryRow_def toFileRow_def updateSequence_def
      storeAfterCluster_def storeDirAndFile_def storeFileFull_def storeFileReset_def
      rootRow_def rowA_def rowB_def blockRowB_def device_ids_differ
      deleted_def full_def Let_def)


text \<open>
  The same message on the store where \<open>/a\<close> has sync 0 inserts the same two rows with sync
  0 and returns false (lemma \<open>updateIndex_dirC_none\<close>). In the store where the file
  \<open>/a/b.txt\<close> has sync full, the message that lists the file as it is stored finds the row
  different from the entry (the sync of a decoded entry is 0), rewrites it, sync included,
  and returns true; no block changes.
\<close>

lemma updateIndex_file_full_rewritten:
  "updateIndex selfId storeFileFull indexDirAndFile
     = (Committed storeFileReset, True,
        [FileUpdated (rowB\<lparr>fr_sync := full\<rparr>) (rowB\<lparr>fr_sequence := 3\<rparr>)])
   \<and> map fr_sync (files storeFileFull) = [full]
   \<and> map fr_sync (files storeFileReset) = [0]
   \<and> blocks storeFileReset = blocks storeFileFull"
  by (simp add: updateIndex_file_full)
    (simp add: storeFileFull_def storeFileReset_def storeDirAndFile_def rowB_def updateSequence_def)

lemma indexNoBlocks_eq:
  "indexNoBlocks =
     \<lparr>ix_folder = ''default'',
      ix_directories =
        [\<lparr>d_name = ''/a'', d_permissions = 493, d_modifiedS = 1, d_modifiedNs = 0,
          d_modifiedBy = [0, 0, 0, 0, 0, 0, 0, 0], d_flags = 0, d_sequence = 1,
          d_version = ''{}'', d_sync = 0,
          d_files =
            [\<lparr>f_name = ''b.txt'', f_size = 4, f_permissions = 420, f_modifiedS = 1,
              f_modifiedNs = 0, f_modifiedBy = [0, 0, 0, 0, 0, 0, 0, 0], f_flags = 0,
              f_sequence = 2, f_blockSize = 131072, f_version = ''{}'', f_symlinkTarget = [],
              f_sync = 0, f_blocks = []\<rparr>]\<rparr>]\<rparr>"
  by (simp add: indexNoBlocks_def decodeIndex_def decodeFile_def wireDirA_def wireFileB_def
      wireFileBNoBlocks_def toBytesBE_def combineFlags_def none_def dirname_def basename_def
      isSlash_def Let_def)

text \<open>
  A block row that is rewritten with the values it has counts as an update: on
  \<open>storeStale\<close> the message that lists the file with no block marks the stale row stale
  again, and \<open>updateIndex\<close> returns true although the store is left as it was.
\<close>

lemma updateIndex_stale_block_rewritten:
  "updateIndex selfId storeStale indexNoBlocks
     = (Committed storeStale, True, [BlockUpdated staleRowB staleRowB])"
  by (simp add: indexNoBlocks_eq updateIndex_def ensureRootDirectory_def
      updateIndexDirectory_def updateIndexFile_def updateEntryDirectory_def updateEntryFile_def
      updateBlocks_def getBlocks_def updateBlock_def toBlockRow_def
      directoryEqualsRow_def fileEqualsRow_def
      parentSync_a getFolder_def getDevice_def getDirectory_def getFile_def
      updateSequence_def storeAfterCluster_def storeDirAndFile_def storeStale_def
      rootRow_def rowA_def rowB_def blockRowB_def staleRowB_def device_ids_differ
      deleted_def full_def Let_def)


lemma updateIndex_sequence_written_back_example:
  "updateIndex selfId storeAfterCluster indexDirAndFile
     = (Committed storeDirAndFile, True,
        [DirectoryInserted rootRow, DirectoryInserted rowA, FileInserted rowB,
         BlockInserted blockRowB])
   \<and> getFolder storeAfterCluster (ix_folder indexDirAndFile) = Some (hd (folders storeAfterCluster))
   \<and> (\<exists>deviceRow. getDevice storeDirAndFile 1 selfId = Some deviceRow
         \<and> list_all (\<lambda>s. s < dv_maxSequenceInternal deviceRow) [0, 1, 2]
         \<and> list_all (\<lambda>r. r \<in> set (directories storeAfterCluster)
                            \<or> dr_sequence r < dv_maxSequenceInternal deviceRow)
              (directories storeDirAndFile)
         \<and> list_all (\<lambda>r. r \<in> set (files storeAfterCluster)
                            \<or> fr_sequence r < dv_maxSequenceInternal deviceRow)
              (files storeDirAndFile))"
proof (intro conjI)
  show "updateIndex selfId storeAfterCluster indexDirAndFile
     = (Committed storeDirAndFile, True,
        [DirectoryInserted rootRow, DirectoryInserted rowA, FileInserted rowB,
         BlockInserted blockRowB])"
    by (rule updateIndex_dirAndFile)
  show f: "getFolder storeAfterCluster (ix_folder indexDirAndFile) = Some (hd (folders storeAfterCluster))"
    by (simp add: indexDirAndFile_eq getFolder_def storeAfterCluster_def)
  have i: "fo_id (hd (folders storeAfterCluster)) = 1" by (simp add: storeAfterCluster_def)
  have a: "assignedSequences
             [DirectoryInserted rootRow, DirectoryInserted rowA, FileInserted rowB,
              BlockInserted blockRowB] = [0, 1, 2]"
    by (simp add: assignedSequences_def rootRow_def rowA_def rowB_def)
  show "\<exists>deviceRow. getDevice storeDirAndFile 1 selfId = Some deviceRow
         \<and> list_all (\<lambda>s. s < dv_maxSequenceInternal deviceRow) [0, 1, 2]
         \<and> list_all (\<lambda>r. r \<in> set (directories storeAfterCluster)
                            \<or> dr_sequence r < dv_maxSequenceInternal deviceRow)
              (directories storeDirAndFile)
         \<and> list_all (\<lambda>r. r \<in> set (files storeAfterCluster)
                            \<or> fr_sequence r < dv_maxSequenceInternal deviceRow)
              (files storeDirAndFile)"
    using updateIndex_sequence_written_back [OF updateIndex_dirAndFile f]
    by (simp only: i a if_True)
qed

text \<open>
  C4. Two messages in a row, neither touching a row with sync full or a block. The
  first, with the directory \<open>/a\<close>, commits: the root directory is inserted with sequence 0
  and \<open>/a\<close> with sequence 1, but \<open>updated\<close> is false, \<open>updateSequence\<close> is skipped and the
  stored \<open>maxSequenceInternal\<close> stays 0, below the sequence 1 of the row \<open>/a\<close>. The second,
  with the directory \<open>/a/c\<close> and its file, therefore starts from 0 again: \<open>/a/c\<close> gets the
  sequence 0 that the root directory has and the file the sequence 1 that \<open>/a\<close> has, and
  the stored \<open>maxSequenceInternal\<close> is still 0.
\<close>

theorem updateIndex_sequence_not_written_back:
  "updateIndex selfId storeAfterCluster indexDirOnly
     = (Committed storeDirOnly, False, [DirectoryInserted rootRow, DirectoryInserted rowA])
   \<and> assignedSequences [DirectoryInserted rootRow, DirectoryInserted rowA] = [0, 1]
   \<and> map dr_sequence (directories storeDirOnly) = [0, 1]
   \<and> map_option dv_maxSequenceInternal (getDevice storeDirOnly 1 selfId) = Some 0
   \<and> updateIndex selfId storeDirOnly indexDirC
     = (Committed storeDirC, False, [DirectoryInserted rowC, FileInserted rowD])
   \<and> assignedSequences [DirectoryInserted rowC, FileInserted rowD] = [0, 1]
   \<and> map dr_sequence (directories storeDirC) = [0, 1, 0]
   \<and> map fr_sequence (files storeDirC) = [1]
   \<and> map_option dv_maxSequenceInternal (getDevice storeDirC 1 selfId) = Some 0"
proof (intro conjI)
  show "updateIndex selfId storeAfterCluster indexDirOnly
     = (Committed storeDirOnly, False, [DirectoryInserted rootRow, DirectoryInserted rowA])"
    by (rule updateIndex_dirOnly)
  show "assignedSequences [DirectoryInserted rootRow, DirectoryInserted rowA] = [0, 1]"
    by (simp add: assignedSequences_def rootRow_def rowA_def)
  show "map dr_sequence (directories storeDirOnly) = [0, 1]"
    by (simp add: storeDirOnly_def rootRow_def rowA_def)
  show "map_option dv_maxSequenceInternal (getDevice storeDirOnly 1 selfId) = Some 0"
    by (simp add: storeDirOnly_def storeAfterCluster_def getDevice_def device_ids_differ)
  show "updateIndex selfId storeDirOnly indexDirC
     = (Committed storeDirC, False, [DirectoryInserted rowC, FileInserted rowD])"
    by (rule updateIndex_dirC_none)
  show "assignedSequences [DirectoryInserted rowC, FileInserted rowD] = [0, 1]"
    by (simp add: assignedSequences_def rowC_def rowD_def)
  show "map dr_sequence (directories storeDirC) = [0, 1, 0]"
    by (simp add: storeDirC_def rootRow_def rowA_def rowC_def)
  show "map fr_sequence (files storeDirC) = [1]"
    by (simp add: storeDirC_def rowD_def)
  show "map_option dv_maxSequenceInternal (getDevice storeDirC 1 selfId) = Some 0"
    by (simp add: storeDirC_def storeDirOnly_def storeAfterCluster_def getDevice_def
        device_ids_differ)
qed

end
